theory Spec2Isabelle
  imports Main "HOL-Library.Char_ord" "HOL-Library.List_Lexorder" "HOL-Library.AList"
begin

section \<open>Machine integers\<close>

text \<open>
  Go's \<^verbatim>\<open>int\<close> is taken as the 64-bit two's complement integer of the usual
  targets. Values are kept as \<^typ>\<open>int\<close>; every \<^verbatim>\<open>+\<close> and \<^verbatim>\<open>-\<close> of the
  source that can leave the range is wrapped by \<open>wrap64\<close>. Comparisons need no
  wrapping.
\<close>

definition wrap64 :: "int \<Rightarrow> int" where
  "wrap64 x = (x + 2 ^ 63) mod 2 ^ 64 - 2 ^ 63"

section \<open>regions.go: a region of a slice\<close>

record Region =
  Start :: int
  End :: int

type_synonym Regions = "Region list"

definition Region_Len :: "Region \<Rightarrow> int" where
  "Region_Len r = wrap64 (End r - Start r)"

definition Region_Empty :: "Region \<Rightarrow> bool" where
  "Region_Empty r = (Region_Len r = 0)"

definition Region_ContainsIndex :: "Region \<Rightarrow> int \<Rightarrow> bool" where
  "Region_ContainsIndex r index = (index \<ge> Start r \<and> index < End r)"

definition Region_IsBefore :: "Region \<Rightarrow> int \<Rightarrow> bool" where
  "Region_IsBefore r index = (index < Start r)"

definition Region_IsAfter :: "Region \<Rightarrow> int \<Rightarrow> bool" where
  "Region_IsAfter r index = (Start r \<ge> index)"

definition Region_Clone :: "Region \<Rightarrow> Region" where
  "Region_Clone r = \<lparr>Start = Start r, End = End r\<rparr>"

definition Region_Grow :: "Region \<Rightarrow> int \<Rightarrow> Region" where
  "Region_Grow r count = \<lparr>Start = Start r, End = wrap64 (End r + count)\<rparr>"

definition Region_Adjacent :: "Region \<Rightarrow> Region \<Rightarrow> bool" where
  "Region_Adjacent r other = (End r = Start other \<or> End other = Start r)"

definition Region_ContainsRegion :: "Region \<Rightarrow> Region \<Rightarrow> bool" where
  "Region_ContainsRegion r other = (Start other \<ge> Start r \<and> End other \<le> End r)"

definition Region_Overlap :: "Region \<Rightarrow> Region \<Rightarrow> bool" where
  "Region_Overlap r other =
     ((Start other \<ge> Start r \<and> Start other < End r) \<or>
      (End other > Start r \<and> End other < End r) \<or>
      (Start other < Start r \<and> End other > Start r) \<or>
      (Start r < Start other \<and> End r > Start other))"

definition Region_Equal :: "Region \<Rightarrow> Region \<Rightarrow> bool" where
  "Region_Equal r other = (Start r = Start other \<and> End r = End other)"

definition Region_OverlapOrAdjacent :: "Region \<Rightarrow> Region \<Rightarrow> bool" where
  "Region_OverlapOrAdjacent r other = (Region_Adjacent r other \<or> Region_Overlap r other)"

definition Region_Join :: "Region \<Rightarrow> Region \<Rightarrow> Region" where
  "Region_Join r other =
     \<lparr>Start = (if Start r < Start other then Start r else Start other),
      End = (if End r > End other then End r else End other)\<rparr>"

definition Region_Shrink :: "Region \<Rightarrow> int \<Rightarrow> Region" where
  "Region_Shrink r count =
     (if count \<ge> Region_Len r then \<lparr>Start = Start r, End = Start r\<rparr>
      else \<lparr>Start = Start r, End = wrap64 (End r - count)\<rparr>)"

definition Region_Shift :: "Region \<Rightarrow> int \<Rightarrow> Region" where
  "Region_Shift r diff = \<lparr>Start = wrap64 (Start r + diff), End = wrap64 (End r + diff)\<rparr>"

text \<open>
  \<^verbatim>\<open>Region.Cut\<close>: the chain of tests is kept in the order of the source; the last
  line is the source's fall-through \<^verbatim>\<open>return r.Shrink(other.Len())\<close>.
\<close>

definition Region_Cut :: "Region \<Rightarrow> Region \<Rightarrow> Region" where
  "Region_Cut r other =
     (if End other < Start r then Region_Shift r (wrap64 (- Region_Len other))
      else if Start other \<ge> End r then r
      else if Start other \<ge> Start r \<and> End other \<ge> End r
        then \<lparr>Start = Start r, End = Start other\<rparr>
      else if Start other \<le> Start r \<and> End other > End r
        then \<lparr>Start = Start other, End = Start other\<rparr>
      else if Start other \<le> Start r \<and> End other > Start r
        then \<lparr>Start = Start other,
              End = wrap64 (wrap64 (Start other + Region_Len r) - wrap64 (End other - Start r))\<rparr>
      else Region_Shrink r (Region_Len other))"

definition Region_Intersect :: "Region \<Rightarrow> Region \<Rightarrow> Regions" where
  "Region_Intersect r other =
     (if Region_ContainsRegion other r then []
      else if \<not> Region_Overlap r other then [r]
      else if Start other \<le> Start r then [\<lparr>Start = End other, End = End r\<rparr>]
      else if End other \<ge> End r then [\<lparr>Start = Start r, End = Start other\<rparr>]
      else [\<lparr>Start = Start r, End = Start other\<rparr>, \<lparr>Start = End other, End = End r\<rparr>])"

section \<open>regions.go: sets of regions\<close>

definition Regions_Cut :: "Regions \<Rightarrow> Region \<Rightarrow> Regions" where
  "Regions_Cut rs other = map (\<lambda>r. Region_Cut r other) rs"

definition Regions_Compact :: "Regions \<Rightarrow> Regions" where
  "Regions_Compact rs = filter (\<lambda>r. \<not> Region_Empty r) rs"

text \<open>
  \<^verbatim>\<open>Check\<close> and \<^verbatim>\<open>CheckSorted\<close> run a watermark over the set, starting at 0.
\<close>

fun check_from :: "int \<Rightarrow> Regions \<Rightarrow> bool" where
  "check_from watermark [] = True"
| "check_from watermark (r # rs) = (if Start r < watermark then False else check_from (End r) rs)"

definition Regions_Check :: "Regions \<Rightarrow> bool" where
  "Regions_Check rs = check_from 0 rs"

fun check_sorted_from :: "int \<Rightarrow> Regions \<Rightarrow> bool" where
  "check_sorted_from watermark [] = True"
| "check_sorted_from watermark (r # rs) =
     (if Start r < watermark then False else check_sorted_from (Start r) rs)"

definition Regions_CheckSorted :: "Regions \<Rightarrow> bool" where
  "Regions_CheckSorted rs = check_sorted_from 0 rs"

text \<open>
  \<^verbatim>\<open>Regions.Union\<close>. The loop state is the two remaining sets, the region being
  built (\<^verbatim>\<open>next\<close>, a nil pointer when there is none) and the result so far. Each
  \<^verbatim>\<open>continue\<close> of the source is a recursive call, each \<^verbatim>\<open>break\<close> returns; the
  \<^verbatim>\<open>if next != nil\<close> after the loop is the first branch.
\<close>

function union_loop :: "Regions \<Rightarrow> Regions \<Rightarrow> Region option \<Rightarrow> Regions \<Rightarrow> Regions" where
  "union_loop leftSet rightSet next result =
     (if leftSet = [] \<and> rightSet = [] then
        (case next of None \<Rightarrow> result | Some n \<Rightarrow> result @ [n])
      else
        (case next of
           None \<Rightarrow>
             (if leftSet = [] then result @ rightSet
              else if rightSet = [] then result @ leftSet
              else if Start (hd leftSet) < Start (hd rightSet)
                then union_loop (tl leftSet) rightSet (Some (Region_Clone (hd leftSet))) result
              else union_loop leftSet (tl rightSet) (Some (Region_Clone (hd rightSet))) result)
         | Some n \<Rightarrow>
             (if leftSet \<noteq> [] \<and> Region_Overlap n (hd leftSet)
                then union_loop (tl leftSet) rightSet (Some (Region_Join n (hd leftSet))) result
              else if leftSet \<noteq> [] \<and> Region_Equal n (hd leftSet)
                then union_loop (tl leftSet) rightSet (Some n) result
              else if rightSet \<noteq> [] \<and> Region_Overlap n (hd rightSet)
                then union_loop leftSet (tl rightSet) (Some (Region_Join n (hd rightSet))) result
              else if rightSet \<noteq> [] \<and> Region_Equal n (hd rightSet)
                then union_loop leftSet (tl rightSet) (Some n) result
              else union_loop leftSet rightSet None (result @ [n]))))"
  by pat_completeness auto
termination
  by (relation "measure (\<lambda>(l, r, n, res). 2 * (length l + length r) + (case n of None \<Rightarrow> 0 | Some _ \<Rightarrow> 1))")
     (auto simp: neq_Nil_conv)

declare union_loop.simps [simp del]

definition Regions_Union :: "Regions \<Rightarrow> Regions \<Rightarrow> Regions" where
  "Regions_Union rs otherRegions =
     (if rs = [] then otherRegions
      else if otherRegions = [] then rs
      else union_loop rs otherRegions None [])"

text \<open>
  \<^verbatim>\<open>Regions.Intersect\<close>: the receiver with the parts covered by \<open>other\<close>
  removed. One pass of the loop takes \<^verbatim>\<open>next\<close> from the left set when it is nil,
  skips the regions of the right set that end at or before \<^verbatim>\<open>next\<close> starts, and
  cuts the first remaining one out of \<^verbatim>\<open>next\<close>.
\<close>

function intersect_loop :: "Regions \<Rightarrow> Regions \<Rightarrow> Region option \<Rightarrow> Regions \<Rightarrow> Regions" where
  "intersect_loop leftSet rightSet next result =
     (if leftSet = [] \<and> rightSet = [] then
        (case next of None \<Rightarrow> result | Some n \<Rightarrow> result @ [n])
      else if leftSet = [] \<and> next = None then result
      else
        (let n = (case next of None \<Rightarrow> hd leftSet | Some n \<Rightarrow> n);
             leftSet' = (case next of None \<Rightarrow> tl leftSet | Some _ \<Rightarrow> leftSet);
             rightSet' = dropWhile (\<lambda>r. End r \<le> Start n) rightSet
         in if rightSet' = [] then result @ [n] @ leftSet'
            else if Region_Overlap (hd rightSet') n then
              (case Region_Intersect n (hd rightSet') of
                 [] \<Rightarrow> intersect_loop leftSet' rightSet' None result
               | [a] \<Rightarrow> intersect_loop leftSet' rightSet' (Some a) result
               | a # b # _ \<Rightarrow> intersect_loop leftSet' rightSet' (Some b) (result @ [a]))
            else intersect_loop leftSet' rightSet' None (result @ [n])))"
  by pat_completeness auto

text \<open>
  The loop ends: a pass either empties \<^verbatim>\<open>next\<close>, or lets the right set lose its
  first region on the following pass, or leaves a \<^verbatim>\<open>next\<close> that the first region
  of the right set no longer overlaps.
\<close>

definition pending :: "Regions \<Rightarrow> Region option \<Rightarrow> Region option" where
  "pending l n = (case n of Some x \<Rightarrow> Some x | None \<Rightarrow> (case l of [] \<Rightarrow> None | x # _ \<Rightarrow> Some x))"

definition right_left :: "Regions \<Rightarrow> Regions \<Rightarrow> Region option \<Rightarrow> nat" where
  "right_left l r n =
     (case pending l n of None \<Rightarrow> 0 | Some x \<Rightarrow> length (dropWhile (\<lambda>q. End q \<le> Start x) r))"

definition right_overlaps :: "Regions \<Rightarrow> Regions \<Rightarrow> Region option \<Rightarrow> nat" where
  "right_overlaps l r n =
     (case pending l n of
        None \<Rightarrow> 0
      | Some x \<Rightarrow>
          (case dropWhile (\<lambda>q. End q \<le> Start x) r of
             [] \<Rightarrow> 0
           | q # _ \<Rightarrow> if Region_Overlap q x then 1 else 0))"

lemma right_left_eq:
  "\<not> (leftSet = [] \<and> next = None) \<Longrightarrow>
   right_left leftSet rightSet next =
     length (dropWhile (\<lambda>r. End r \<le> Start (case next of None \<Rightarrow> hd leftSet | Some n \<Rightarrow> n)) rightSet)"
  by (cases "next"; cases leftSet; simp add: right_left_def pending_def)

lemma right_overlaps_eq:
  "\<not> (leftSet = [] \<and> next = None) \<Longrightarrow>
   dropWhile (\<lambda>r. End r \<le> Start (case next of None \<Rightarrow> hd leftSet | Some n \<Rightarrow> n)) rightSet = q # qs \<Longrightarrow>
   right_overlaps leftSet rightSet next =
     (if Region_Overlap q (case next of None \<Rightarrow> hd leftSet | Some n \<Rightarrow> n) then 1 else 0)"
  by (cases "next"; cases leftSet; simp add: right_overlaps_def pending_def)

lemma right_left_Some: "right_left l r (Some a) = length (dropWhile (\<lambda>q. End q \<le> Start a) r)"
  by (simp add: right_left_def pending_def)

lemma right_overlaps_Some:
  "right_overlaps l r (Some a) =
     (case dropWhile (\<lambda>q. End q \<le> Start a) r of [] \<Rightarrow> 0 | q # _ \<Rightarrow> if Region_Overlap q a then 1 else 0)"
  by (simp add: right_overlaps_def pending_def)

lemma dropWhile_again: "dropWhile P xs = q # qs \<Longrightarrow> dropWhile P (q # qs) = q # qs"
  by (metis dropWhile_idem)

lemma dropWhile_head_gone: "P q \<Longrightarrow> length (dropWhile P (q # qs)) < Suc (length qs)"
  by (simp add: le_imp_less_Suc length_dropWhile_le)

lemma Region_Intersect_single:
  "Region_Overlap q n \<Longrightarrow> Region_Intersect n q = [a] \<Longrightarrow>
   End q \<le> Start a \<or> (Start a = Start n \<and> \<not> Region_Overlap q a)"
  by (auto simp: Region_Intersect_def Region_Overlap_def Region_ContainsRegion_def split: if_splits)

lemma Region_Intersect_double: "Region_Intersect n q = a # b # rest \<Longrightarrow> End q \<le> Start b"
  by (auto simp: Region_Intersect_def split: if_splits)

termination intersect_loop
proof (relation "measures [\<lambda>(l, r, n, res). length l + (case n of None \<Rightarrow> 0 | Some _ \<Rightarrow> 1),
                           \<lambda>(l, r, n, res). right_left l r n,
                           \<lambda>(l, r, n, res). right_overlaps l r n]", goal_cases)
  case 1
  then show ?case by simp
next
  case (2 leftSet rightSet "next" result n leftSet' rightSet')
  then show ?case by (auto split: option.splits simp: neq_Nil_conv)
next
  case (3 leftSet rightSet "next" result n leftSet' rightSet' a)
  note ne = 3(2) and n_def = 3(3) and l_def = 3(4) and r_def = 3(5)
  obtain q qs where q: "rightSet' = q # qs" using 3(6) by (cases rightSet') auto
  have ov: "Region_Overlap q n" using 3(7) q by simp
  have int: "Region_Intersect n q = [a]" using 3(8) 3(9) q by simp
  have L: "length leftSet' + 1 = length leftSet + (case next of None \<Rightarrow> 0 | Some _ \<Rightarrow> 1)"
    using ne l_def by (cases "next"; cases leftSet; simp)
  have dw: "dropWhile (\<lambda>r. End r \<le> Start n) rightSet = q # qs" using r_def q by simp
  have R: "right_left leftSet rightSet next = Suc (length qs)"
    using right_left_eq [OF ne, of rightSet] dw n_def by simp
  have O: "right_overlaps leftSet rightSet next = 1"
    using right_overlaps_eq [OF ne, of rightSet q qs] dw n_def ov by simp
  from Region_Intersect_single [OF ov int]
  consider "End q \<le> Start a" | "Start a = Start n" "\<not> Region_Overlap q a" by auto
  then show ?case
  proof cases
    case 1
    then have "right_left leftSet' rightSet' (Some a) < Suc (length qs)"
      unfolding right_left_Some q by (rule dropWhile_head_gone)
    then show ?thesis using L R by simp
  next
    case 2
    have "dropWhile (\<lambda>r. End r \<le> Start a) rightSet' = q # qs"
      using dropWhile_again [OF dw] 2(1) q by simp
    then have "right_left leftSet' rightSet' (Some a) = Suc (length qs)"
      "right_overlaps leftSet' rightSet' (Some a) = 0"
      using 2(2) by (simp_all add: right_left_Some right_overlaps_Some)
    then show ?thesis using L R O by simp
  qed
next
  case (4 leftSet rightSet "next" result n leftSet' rightSet' a bs b rest)
  note ne = 4(2) and n_def = 4(3) and l_def = 4(4) and r_def = 4(5)
  obtain q qs where q: "rightSet' = q # qs" using 4(6) by (cases rightSet') auto
  have int: "Region_Intersect n q = a # b # rest" using 4(8) 4(9) q by simp
  have L: "length leftSet' + 1 = length leftSet + (case next of None \<Rightarrow> 0 | Some _ \<Rightarrow> 1)"
    using ne l_def by (cases "next"; cases leftSet; simp)
  have dw: "dropWhile (\<lambda>r. End r \<le> Start n) rightSet = q # qs" using r_def q by simp
  have R: "right_left leftSet rightSet next = Suc (length qs)"
    using right_left_eq [OF ne, of rightSet] dw n_def by simp
  have "End q \<le> Start b" using Region_Intersect_double [OF int] .
  then have "right_left leftSet' rightSet' (Some b) < Suc (length qs)"
    unfolding right_left_Some q by (rule dropWhile_head_gone)
  then show ?case using L R by simp
next
  case (5 leftSet rightSet "next" result n leftSet' rightSet')
  then show ?case by (auto split: option.splits simp: neq_Nil_conv)
qed

declare intersect_loop.simps [simp del]

definition Regions_Intersect :: "Regions \<Rightarrow> Regions \<Rightarrow> Regions" where
  "Regions_Intersect rs other =
     (if other = [] \<or> rs = [] then rs else intersect_loop rs other None [])"

text \<open>
  The remaining operations of \<^verbatim>\<open>Regions\<close> that the references use. Reading
  \<^verbatim>\<open>source[i]\<close> outside the slice and \<^verbatim>\<open>make\<close> with a negative capacity panic
  in Go; both are results of the model.
\<close>

datatype error = Failure string | Panic string

definition Regions_ToIndicies :: "Regions \<Rightarrow> int list" where
  "Regions_ToIndicies rs = concat (map (\<lambda>r. [Start r .. End r - 1]) rs)"

fun Regions_ContainsIndex :: "Regions \<Rightarrow> int \<Rightarrow> bool" where
  "Regions_ContainsIndex [] i = False"
| "Regions_ContainsIndex (r # rs) i =
     (if Start r > i then False
      else if Region_ContainsIndex r i then True
      else Regions_ContainsIndex rs i)"

definition NewRegionForEachIndex :: "int list \<Rightarrow> Regions" where
  "NewRegionForEachIndex indicies = map (\<lambda>index. \<lparr>Start = index, End = wrap64 (index + 1)\<rparr>) indicies"

definition Regions_IndiciesCount :: "Regions \<Rightarrow> int" where
  "Regions_IndiciesCount rs = foldl (\<lambda>result r. wrap64 (result + Region_Len r)) 0 rs"

text \<open>\<^verbatim>\<open>source[i]\<close> for a Go slice: a panic outside \<open>[0, len)\<close>.\<close>

definition index_slice :: "'a list \<Rightarrow> int \<Rightarrow> error + 'a" where
  "index_slice source i =
     (if 0 \<le> i \<and> i < int (length source) then Inr (source ! nat i)
      else Inl (Panic ''runtime error: index out of range''))"

fun index_all :: "'a list \<Rightarrow> int list \<Rightarrow> error + 'a list" where
  "index_all source [] = Inr []"
| "index_all source (i # is) =
     (case index_slice source i of
        Inl e \<Rightarrow> Inl e
      | Inr x \<Rightarrow> (case index_all source is of Inl e \<Rightarrow> Inl e | Inr xs \<Rightarrow> Inr (x # xs)))"

fun Regions_ExtractItems :: "Regions \<Rightarrow> 'a list \<Rightarrow> error + 'a list list" where
  "Regions_ExtractItems [] source = Inr []"
| "Regions_ExtractItems (r # rs) source =
     (if Region_Len r < 0 then Inl (Panic ''runtime error: makeslice: cap out of range'')
      else case index_all source [Start r .. End r - 1] of
        Inl e \<Rightarrow> Inl e
      | Inr items \<Rightarrow>
          (case Regions_ExtractItems rs source of
             Inl e \<Rightarrow> Inl e
           | Inr result \<Rightarrow> Inr (items # result)))"

text \<open>
  \<^verbatim>\<open>MergeItems\<close>: the loop state is \<^verbatim>\<open>merged\<close>, \<^verbatim>\<open>outRegions\<close> and
  \<^verbatim>\<open>sourceIndex\<close>; \<open>regionIndex\<close> counts the regions done. The inner copy loop
  reads \<^verbatim>\<open>source[sourceIndex]\<close> up to \<^verbatim>\<open>r.Start\<close> or the end of the source.
\<close>

fun merge_items_loop ::
  "Regions \<Rightarrow> nat \<Rightarrow> 'a list \<Rightarrow> 'a list list \<Rightarrow> 'a list \<Rightarrow> Regions \<Rightarrow> int
     \<Rightarrow> error + ('a list \<times> Regions)" where
  "merge_items_loop [] regionIndex source replace merged outRegions sourceIndex =
     (if sourceIndex < int (length source) then
        (if sourceIndex < 0 then Inl (Panic ''runtime error: slice bounds out of range'')
         else Inr (merged @ drop (nat sourceIndex) source, outRegions))
      else Inr (merged, outRegions))"
| "merge_items_loop (r # rs) regionIndex source replace merged outRegions sourceIndex =
     (case index_all source [sourceIndex .. min (Start r) (int (length source)) - 1] of
        Inl e \<Rightarrow> Inl e
      | Inr copied \<Rightarrow>
          (let merged1 = merged @ copied;
               insert = (if length replace > regionIndex then replace ! regionIndex else []);
               region = \<lparr>Start = int (length merged1),
                         End = int (length merged1) + int (length insert)\<rparr>
           in merge_items_loop rs (Suc regionIndex) source replace (merged1 @ insert)
                (outRegions @ [region]) (End r)))"

definition Regions_MergeItems ::
  "Regions \<Rightarrow> 'a list \<Rightarrow> 'a list list \<Rightarrow> error + ('a list \<times> Regions)" where
  "Regions_MergeItems rs source replace = merge_items_loop rs 0 source replace [] [] 0"

section \<open>Formatting integers\<close>

text \<open>
  \<^verbatim>\<open>fmt.Sprintf\<close> with \<^verbatim>\<open>%d\<close> and \<^verbatim>\<open>%06d\<close>: decimal digits, a leading minus
  sign, and for \<^verbatim>\<open>%06d\<close> zeros after the sign up to a width of six.
\<close>

fun digits :: "nat \<Rightarrow> string" where
  "digits n = (if n < 10 then [char_of (48 + n)] else digits (n div 10) @ [char_of (48 + n mod 10)])"

declare digits.simps [simp del]

definition fmt_d :: "int \<Rightarrow> string" where
  "fmt_d i = (if i < 0 then CHR ''-'' # digits (nat (- i)) else digits (nat i))"

definition fmt_06d :: "int \<Rightarrow> string" where
  "fmt_06d i =
     (if i < 0 then CHR ''-'' # replicate (5 - length (digits (nat (- i)))) CHR ''0'' @ digits (nat (- i))
      else replicate (6 - length (digits (nat i))) CHR ''0'' @ digits (nat i))"

fun join_comma :: "string list \<Rightarrow> string" where
  "join_comma [] = []"
| "join_comma [s] = s"
| "join_comma (s # t # ss) = s @ '','' @ join_comma (t # ss)"

definition Regions_ToSliceSelector :: "Regions \<Rightarrow> string" where
  "Regions_ToSliceSelector rs =
     join_comma (concat (map (\<lambda>r.
        if Region_Len r > 1 \<or> Region_Len r = 0 then [fmt_d (Start r) @ '':'' @ fmt_d (End r)]
        else if Region_Len r = 1 then [fmt_d (Start r)]
        else []) rs))"

section \<open>Documents and variable references\<close>

text \<open>
  The document is Go's \<^verbatim>\<open>interface{}\<close> restricted to what a decoded JSON document
  holds: nil, booleans, integers, strings, \<^verbatim>\<open>[]interface{}\<close> and
  \<^verbatim>\<open>map[string]interface{}\<close> (an association list; the code sorts every key list it
  takes from a map). On these values \<^verbatim>\<open>toCanonicalType\<close> changes nothing and has no
  error return; on nil it calls a method of the nil \<^verbatim>\<open>reflect.Type\<close> and panics.
  Floating point scalars, type aliases of the containers and nil containers are
  outside the model.
\<close>

datatype val =
    VNil
  | VBool bool
  | VInt int
  | VStr string
  | VArr "val list"
  | VMap "(string \<times> val) list"

text \<open>\<^verbatim>\<open>m[key]\<close> on a Go map: nil for a missing key.\<close>

definition map_index :: "(string \<times> val) list \<Rightarrow> string \<Rightarrow> val" where
  "map_index m k = (case map_of m k of None \<Rightarrow> VNil | Some v \<Rightarrow> v)"

definition toCanonicalType :: "val \<Rightarrow> error + val" where
  "toCanonicalType v =
     (case v of
        VNil \<Rightarrow> Inl (Panic ''runtime error: invalid memory address or nil pointer dereference'')
      | _ \<Rightarrow> Inr v)"

definition assertIsCompatible :: "val \<Rightarrow> error option" where
  "assertIsCompatible v = (case toCanonicalType v of Inl e \<Rightarrow> Some e | Inr _ \<Rightarrow> None)"

definition isCanonicalType :: "val \<Rightarrow> bool" where
  "isCanonicalType v = (case v of VArr _ \<Rightarrow> True | VMap _ \<Rightarrow> True | _ \<Rightarrow> False)"

definition matchType :: "val \<Rightarrow> val \<Rightarrow> error + val" where
  "matchType newValue oldValue =
     (if \<not> isCanonicalType newValue then Inr newValue
      else case (newValue, oldValue) of
        (VArr _, VArr _) \<Rightarrow> Inr newValue
      | (VMap _, VMap _) \<Rightarrow> Inr newValue
      | (_, VNil) \<Rightarrow> Inl (Panic ''reflect: nil type passed to Type.ConvertibleTo'')
      | _ \<Rightarrow> Inr newValue)"

text \<open>
  A \<^verbatim>\<open>VarRef\<close> holds two closures. The library builds four pairs of them, kept here
  as data: the root variable of \<^verbatim>\<open>Expression.Match\<close>, the element of an array
  variable (\<^verbatim>\<open>ArrayRef.Vars\<close>), the key of a map variable (\<^verbatim>\<open>MapRef.Vars\<close>) and
  the literal (\<^verbatim>\<open>LiteralRef.Vars\<close>). The root's closures read and write the
  captured \<^verbatim>\<open>data\<close>, which every function below takes as an argument and, when it
  may write, returns.
\<close>

datatype varkey = NoKey | IntKey int | StrKey string

datatype VarRef = MkVarRef (closures: lens) (depth: int) (identity: string) (key: varkey)
and lens =
    RootLens
  | IndexLens VarRef int
  | KeyLens VarRef string
  | LiteralLens val

fun VarRef_Value :: "val \<Rightarrow> VarRef \<Rightarrow> error + val"
and lens_get :: "val \<Rightarrow> lens \<Rightarrow> error + val" where
  "VarRef_Value data (MkVarRef l d i k) = lens_get data l"
| "lens_get data RootLens = Inr data"
| "lens_get data (IndexLens v index) =
     (case VarRef_Value data v of
        Inl e \<Rightarrow> Inl e
      | Inr x \<Rightarrow>
          (case toCanonicalType x of
             Inl e \<Rightarrow> Inl e
           | Inr (VArr xs) \<Rightarrow> index_slice xs index
           | Inr _ \<Rightarrow> Inl (Panic ''interface conversion: interface {} is not []interface {}'')))"
| "lens_get data (KeyLens v k) =
     (case VarRef_Value data v of
        Inl e \<Rightarrow> Inl e
      | Inr x \<Rightarrow>
          (case toCanonicalType x of
             Inl e \<Rightarrow> Inl e
           | Inr (VMap m) \<Rightarrow> Inr (map_index m k)
           | Inr _ \<Rightarrow> Inl (Panic ''interface conversion: interface {} is not map[string]interface {}'')))"
| "lens_get data (LiteralLens x) = Inr x"

definition VarRef_CanonicalValue :: "val \<Rightarrow> VarRef \<Rightarrow> error + val" where
  "VarRef_CanonicalValue data v =
     (case VarRef_Value data v of Inl e \<Rightarrow> Inl e | Inr x \<Rightarrow> toCanonicalType x)"

text \<open>The two type assertions the references make on a canonical value.\<close>

definition canonical_slice :: "val \<Rightarrow> VarRef \<Rightarrow> error + val list" where
  "canonical_slice data v =
     (case VarRef_CanonicalValue data v of
        Inl e \<Rightarrow> Inl e
      | Inr (VArr xs) \<Rightarrow> Inr xs
      | Inr _ \<Rightarrow> Inl (Panic ''interface conversion: interface {} is not []interface {}''))"

definition canonical_map :: "val \<Rightarrow> VarRef \<Rightarrow> error + (string \<times> val) list" where
  "canonical_map data v =
     (case VarRef_CanonicalValue data v of
        Inl e \<Rightarrow> Inl e
      | Inr (VMap m) \<Rightarrow> Inr m
      | Inr _ \<Rightarrow> Inl (Panic ''interface conversion: interface {} is not map[string]interface {}''))"

datatype kind = Invalid | Slice | Map_kind | Other_kind

definition VarRef_TypeKind :: "val \<Rightarrow> VarRef \<Rightarrow> error + kind" where
  "VarRef_TypeKind data v =
     (case VarRef_Value data v of
        Inl e \<Rightarrow> Inl e
      | Inr VNil \<Rightarrow> Inr Invalid
      | Inr (VArr _) \<Rightarrow> Inr Slice
      | Inr (VMap _) \<Rightarrow> Inr Map_kind
      | Inr _ \<Rightarrow> Inr Other_kind)"

definition VarRef_IsMap :: "val \<Rightarrow> VarRef \<Rightarrow> error + bool" where
  "VarRef_IsMap data v =
     (case VarRef_TypeKind data v of Inl e \<Rightarrow> Inl e | Inr k \<Rightarrow> Inr (k = Map_kind))"

definition VarRef_IsSlice :: "val \<Rightarrow> VarRef \<Rightarrow> error + bool" where
  "VarRef_IsSlice data v =
     (case VarRef_TypeKind data v of Inl e \<Rightarrow> Inl e | Inr k \<Rightarrow> Inr (k = Slice))"

text \<open>
  Writing through a variable. The result is the error (\<open>None\<close> for Go's nil error)
  and the document afterwards. The setters of \<^verbatim>\<open>ArrayRef.Vars\<close> and
  \<^verbatim>\<open>MapRef.Vars\<close> clone the container, store the value and \<^verbatim>\<open>Set\<close> the parent;
  an error of that \<^verbatim>\<open>Set\<close> is turned into a panic.
\<close>

definition as_panic :: "error \<Rightarrow> error" where
  "as_panic e = (case e of Failure m \<Rightarrow> Panic m | Panic m \<Rightarrow> Panic m)"

fun VarRef_Set :: "VarRef \<Rightarrow> val \<Rightarrow> val \<Rightarrow> error option \<times> val"
and lens_set :: "lens \<Rightarrow> val \<Rightarrow> val \<Rightarrow> error option \<times> val" where
  "VarRef_Set (MkVarRef l d i k) value data =
     (case assertIsCompatible value of
        Some e \<Rightarrow> (Some e, data)
      | None \<Rightarrow> lens_set l value data)"
| "lens_set RootLens value data = (None, value)"
| "lens_set (IndexLens v index) value data =
     (case canonical_slice data v of
        Inl e \<Rightarrow> (Some e, data)
      | Inr current \<Rightarrow>
          (if 0 \<le> index \<and> index < int (length current) then
             (case VarRef_Set v (VArr (current[nat index := value])) data of
                (Some e, data') \<Rightarrow> (Some (as_panic e), data')
              | (None, data') \<Rightarrow> (None, data'))
           else (Some (Panic ''runtime error: index out of range''), data)))"
| "lens_set (KeyLens v k) value data =
     (case canonical_map data v of
        Inl e \<Rightarrow> (Some e, data)
      | Inr current \<Rightarrow>
          (case VarRef_Set v (VMap (AList.update k value current)) data of
             (Some e, data') \<Rightarrow> (Some (as_panic e), data')
           | (None, data') \<Rightarrow> (None, data')))"
| "lens_set (LiteralLens x) value data = (Some (Panic ''Attempt to set value of LiteralRef''), data)"

definition VarRef_setter :: "VarRef \<Rightarrow> val \<Rightarrow> val \<Rightarrow> error option \<times> val" where
  "VarRef_setter v value data = lens_set (closures v) value data"

definition VarRef_SetWithMatchedType :: "VarRef \<Rightarrow> val \<Rightarrow> val \<Rightarrow> error option \<times> val" where
  "VarRef_SetWithMatchedType v value data =
     (case VarRef_Value data v of
        Inl e \<Rightarrow> (Some e, data)
      | Inr old \<Rightarrow>
          (case matchType value old of
             Inl e \<Rightarrow> (Some e, data)
           | Inr matched \<Rightarrow> VarRef_Set v matched data))"

section \<open>References\<close>

text \<open>
  The implementations of the \<^verbatim>\<open>Ref\<close> interface: \<^verbatim>\<open>*VarRef\<close>, \<^verbatim>\<open>*ArrayRef\<close>,
  \<^verbatim>\<open>*MapRef\<close>, \<^verbatim>\<open>*UnionRef\<close>, \<^verbatim>\<open>*LiteralRef\<close>, \<^verbatim>\<open>*LatentMapRef\<close>, and the
  nil interface value (\<^verbatim>\<open>LatentMapRef.Merge\<close> returns it as the merged reference).
  A \<^verbatim>\<open>LatentMapRef\<close> is an object that \<^verbatim>\<open>AddKey\<close> updates in place and that
  \<^verbatim>\<open>Merge\<close> compares by pointer: \<open>RLatent a root\<close> is the pointer \<open>a\<close> together
  with the field \<^verbatim>\<open>root\<close>, which is never assigned after the object is made; the
  field \<^verbatim>\<open>keyPath\<close> of the object at \<open>a\<close> is entry \<open>a\<close> of the heap.
\<close>

datatype Ref =
    RVar VarRef
  | RArray VarRef Regions
  | RMap VarRef "string list"
  | RUnion "Ref list"
  | RLiteral val
  | RLatent nat Ref
  | RNil

type_synonym heap = "string list list"

definition nil_dereference :: error where
  "nil_dereference = Panic ''runtime error: invalid memory address or nil pointer dereference''"

text \<open>Running a list of results in order: the first error ends the run.\<close>

fun seq_all :: "(error + 'a) list \<Rightarrow> error + 'a list" where
  "seq_all [] = Inr []"
| "seq_all (x # xs) =
     (case x of
        Inl e \<Rightarrow> Inl e
      | Inr y \<Rightarrow> (case seq_all xs of Inl e \<Rightarrow> Inl e | Inr ys \<Rightarrow> Inr (y # ys)))"

definition individualRefs :: "Ref \<Rightarrow> Ref list" where
  "individualRefs ref = (case ref of RUnion refs \<Rightarrow> refs | _ \<Rightarrow> [ref])"

definition NewEmptyRef :: Ref where
  "NewEmptyRef = RUnion []"

definition NewLiteralRef :: "val \<Rightarrow> Ref" where
  "NewLiteralRef v = RLiteral v"

definition NewArrayRef :: "val \<Rightarrow> VarRef \<Rightarrow> Regions \<Rightarrow> error + Ref" where
  "NewArrayRef data variable selection =
     (case VarRef_CanonicalValue data variable of
        Inl e \<Rightarrow> Inl e
      | Inr (VArr _) \<Rightarrow> Inr (RArray variable selection)
      | Inr _ \<Rightarrow> Inl (Panic ''Variables wrapped by ArrayRefs must be compatible with type []interface{}''))"

definition NewMapRef :: "val \<Rightarrow> VarRef \<Rightarrow> string list \<Rightarrow> error + Ref" where
  "NewMapRef data variable keys =
     (case VarRef_CanonicalValue data variable of
        Inl e \<Rightarrow> Inl e
      | Inr (VMap _) \<Rightarrow> Inr (RMap variable (sort keys))
      | Inr _ \<Rightarrow> Inl (Panic ''Variables wrapped by MapRefs must be of type map[string]interface{}''))"

text \<open>
  \<^verbatim>\<open>NewLatentMapRef\<close> makes a new object at the next free address of the heap. A
  \<^verbatim>\<open>*LatentMapRef\<close> is the address with the root; as a \<^verbatim>\<open>Ref\<close> it is
  \<open>RLatent\<close> of the two.
\<close>

definition NewLatentMapRef :: "Ref \<Rightarrow> string list \<Rightarrow> heap \<Rightarrow> (nat \<times> Ref) \<times> heap" where
  "NewLatentMapRef rootRef keyPath h = ((length h, rootRef), h @ [keyPath])"

definition LatentMapRef_AddKey :: "nat \<Rightarrow> string \<Rightarrow> heap \<Rightarrow> heap" where
  "LatentMapRef_AddKey a k h = h[a := h ! a @ [k]]"

fun Ref_Depth :: "Ref \<Rightarrow> error + int" where
  "Ref_Depth (RVar v) = Inr (depth v)"
| "Ref_Depth (RArray v sel) = Inr (wrap64 (depth v + 1))"
| "Ref_Depth (RMap v keys) = Inr (wrap64 (depth v + 1))"
| "Ref_Depth (RUnion refs) = Inr 0"
| "Ref_Depth (RLiteral x) = Inr (- 1)"
| "Ref_Depth (RLatent a root) = Inr 100000"
| "Ref_Depth RNil = Inl nil_dereference"

text \<open>\<^verbatim>\<open>PathedRef\<close>: the references with a \<^verbatim>\<open>GetPath\<close> method.\<close>

fun Ref_GetPath :: "Ref \<Rightarrow> string option" where
  "Ref_GetPath (RVar v) = Some (identity v)"
| "Ref_GetPath (RArray v sel) = Some (identity v)"
| "Ref_GetPath (RMap v keys) = Some (identity v)"
| "Ref_GetPath _ = None"

text \<open>\<^verbatim>\<open>UnionRef.Less\<close> on two members; \<^verbatim>\<open>strings.Compare\<close> orders byte strings.\<close>

definition UnionRef_Less :: "Ref \<Rightarrow> Ref \<Rightarrow> error + bool" where
  "UnionRef_Less ri rj =
     (case Ref_Depth ri of
        Inl e \<Rightarrow> Inl e
      | Inr di \<Rightarrow>
          (case Ref_Depth rj of
             Inl e \<Rightarrow> Inl e
           | Inr dj \<Rightarrow>
               (if di = dj then
                  (case (Ref_GetPath ri, Ref_GetPath rj) of
                     (Some a, None) \<Rightarrow> Inr True
                   | (Some a, Some b) \<Rightarrow> Inr (a < b)
                   | _ \<Rightarrow> Inr (di > dj))
                else Inr (di > dj))))"

text \<open>
  \<^verbatim>\<open>sort.Sort\<close> on the members of a union, as the insertion sort that Go's
  \<^verbatim>\<open>sort\<close> package runs on short slices: each element in turn moves left while it
  is \<^verbatim>\<open>Less\<close> than its left neighbour. \<open>sort_insert x left\<close> takes the part to
  the left of \<open>x\<close> nearest element first.
\<close>

fun sort_insert :: "Ref \<Rightarrow> Ref list \<Rightarrow> error + Ref list" where
  "sort_insert x [] = Inr [x]"
| "sort_insert x (p # ps) =
     (case UnionRef_Less x p of
        Inl e \<Rightarrow> Inl e
      | Inr True \<Rightarrow> (case sort_insert x ps of Inl e \<Rightarrow> Inl e | Inr ys \<Rightarrow> Inr (p # ys))
      | Inr False \<Rightarrow> Inr (x # p # ps))"

fun sort_loop :: "Ref list \<Rightarrow> Ref list \<Rightarrow> error + Ref list" where
  "sort_loop left [] = Inr (rev left)"
| "sort_loop left (x # xs) =
     (case sort_insert x left of Inl e \<Rightarrow> Inl e | Inr left' \<Rightarrow> sort_loop left' xs)"

definition sort_refs :: "Ref list \<Rightarrow> error + Ref list" where
  "sort_refs refs = sort_loop [] refs"

section \<open>utils.go\<close>

fun findInKeys :: "string \<Rightarrow> string list \<Rightarrow> int \<times> bool" where
  "findInKeys value [] = (- 1, False)"
| "findInKeys value (v # keys) =
     (if value = v then (0, True)
      else case findInKeys value keys of (i, found) \<Rightarrow> (if found then (i + 1, True) else (- 1, False)))"

definition unionKeys :: "string list \<Rightarrow> string list \<Rightarrow> string list" where
  "unionKeys a b =
     sort (foldl (\<lambda>result candidate.
                    if snd (findInKeys candidate result) then result else result @ [candidate])
             [] (a @ b))"

definition allKeysOfMap :: "(string \<times> val) list \<Rightarrow> string list" where
  "allKeysOfMap m = map fst m"

section \<open>Merge and Union\<close>

text \<open>
  \<^verbatim>\<open>Merge\<close> returns the merged reference and whether the merge was done. Comparing
  two literals with \<^verbatim>\<open>==\<close> panics when both hold a slice or both hold a map.
\<close>

definition literal_equal :: "val \<Rightarrow> val \<Rightarrow> error + bool" where
  "literal_equal a b =
     (case (a, b) of
        (VArr _, VArr _) \<Rightarrow> Inl (Panic ''runtime error: comparing uncomparable type []interface {}'')
      | (VMap _, VMap _) \<Rightarrow> Inl (Panic ''runtime error: comparing uncomparable type map[string]interface {}'')
      | _ \<Rightarrow> Inr (a = b))"

fun Ref_Merge :: "Ref \<Rightarrow> Ref \<Rightarrow> error + (Ref \<times> bool)"
and merge_members :: "Ref list \<Rightarrow> Ref list \<Rightarrow> Ref \<Rightarrow> error + (Ref \<times> bool)" where
  "Ref_Merge (RArray v sel) ref =
     (case ref of
        RArray v' sel' \<Rightarrow>
          (if identity v = identity v' then Inr (RArray v (Regions_Union sel sel'), True)
           else Inr (RNil, False))
      | _ \<Rightarrow> Inr (RNil, False))"
| "Ref_Merge (RMap v keys) ref =
     (case ref of
        RMap v' keys' \<Rightarrow>
          (if identity v' = identity v then Inr (RMap v (unionKeys keys keys'), True)
           else Inr (RNil, False))
      | _ \<Rightarrow> Inr (RNil, False))"
| "Ref_Merge (RVar v) ref =
     (case ref of
        RVar v' \<Rightarrow> (if identity v' = identity v then Inr (RVar v, True) else Inr (RNil, False))
      | _ \<Rightarrow> Inr (RNil, False))"
| "Ref_Merge (RLiteral x) ref =
     (case ref of
        RLiteral y \<Rightarrow>
          (case literal_equal x y of
             Inl e \<Rightarrow> Inl e
           | Inr True \<Rightarrow> Inr (RLiteral x, True)
           | Inr False \<Rightarrow> Inr (RNil, False))
      | _ \<Rightarrow> Inr (RNil, False))"
| "Ref_Merge (RLatent a root) ref =
     Inr (RNil, (case ref of RLatent b root' \<Rightarrow> b = a | _ \<Rightarrow> False))"
| "Ref_Merge RNil ref = Inl nil_dereference"
| "Ref_Merge (RUnion refs) ref =
     (case ref of
        RUnion _ \<Rightarrow> Inr (RNil, False)
      | _ \<Rightarrow> merge_members [] refs ref)"
| "merge_members earlier [] ref = Inr (RUnion earlier, False)"
| "merge_members earlier (old # rest) ref =
     (case Ref_Merge old ref of
        Inl e \<Rightarrow> Inl e
      | Inr (merged, True) \<Rightarrow> Inr (RUnion (earlier @ [merged] @ rest), True)
      | Inr (merged, False) \<Rightarrow> merge_members (earlier @ [old]) rest ref)"

text \<open>
  \<^verbatim>\<open>Union\<close>. \<open>union_members result refs\<close> is the loop of \<^verbatim>\<open>UnionRef.Union\<close>
  over the remaining operands with the result so far, followed by the unwrapping of a
  single member and the sort. The other references build a fresh \<^verbatim>\<open>UnionRef\<close>
  and call it with themselves as the last operand (\<^verbatim>\<open>NewUnionRef\<close>); the nil
  reference has no methods. The members of a union are a list value here:
  \<^verbatim>\<open>append\<close> and \<^verbatim>\<open>sort.Sort\<close> work on the member slice of the result, and a
  slice that shares its array with the slice of another union is not followed.
\<close>

fun nesting :: "Ref \<Rightarrow> nat" where
  "nesting (RUnion refs) = Suc (sum_list (map (\<lambda>r. Suc (nesting r)) refs))"
| "nesting _ = 0"

definition operands :: "Ref list \<Rightarrow> nat" where
  "operands refs = sum_list (map (\<lambda>r. Suc (nesting r)) refs)"

function Ref_Union :: "Ref \<Rightarrow> Ref list \<Rightarrow> error + Ref"
and union_members :: "Ref \<Rightarrow> Ref list \<Rightarrow> error + Ref" where
  "Ref_Union r refs =
     (case r of
        RUnion _ \<Rightarrow> union_members r refs
      | RNil \<Rightarrow> Inl nil_dereference
      | _ \<Rightarrow> union_members (RUnion []) (refs @ [r]))"
| "union_members result [] =
     (case result of
        RUnion members \<Rightarrow>
          (if length members = 1 then Inr (hd members)
           else case sort_refs members of
             Inl e \<Rightarrow> Inl e
           | Inr members' \<Rightarrow> Inr (RUnion members'))
      | _ \<Rightarrow> Inl (Panic ''BUG: Result of a union with more than one member must be *UnionRef''))"
| "union_members result (ref # rest) =
     (case ref of
        RUnion t \<Rightarrow>
          (case Ref_Union result t of
             Inl e \<Rightarrow> Inl e
           | Inr result' \<Rightarrow> union_members result' rest)
      | _ \<Rightarrow>
          (case Ref_Merge result ref of
             Inl e \<Rightarrow> Inl e
           | Inr (merged, True) \<Rightarrow> union_members merged rest
           | Inr (merged, False) \<Rightarrow>
               (case result of
                  RUnion members \<Rightarrow> union_members (RUnion (members @ [ref])) rest
                | _ \<Rightarrow> Inl (Panic ''interface conversion: Ref is not *UnionRef''))))"
  by pat_completeness auto
termination
  by (relation "measure (\<lambda>x. case x of
                    Inl (r, refs) \<Rightarrow> 2 * operands refs + 3
                  | Inr (result, refs) \<Rightarrow> 2 * operands refs)")
     (auto simp: operands_def)

definition NewUnionRef :: "Ref list \<Rightarrow> error + Ref" where
  "NewUnionRef refs = Ref_Union (RUnion []) refs"

section \<open>Reading a reference\<close>

definition make_cap :: "int \<Rightarrow> error option" where
  "make_cap n = (if n < 0 then Some (Panic ''runtime error: makeslice: cap out of range'') else None)"

fun Ref_EstimateSize :: "Ref \<Rightarrow> error + int" where
  "Ref_EstimateSize (RVar v) = Inr 1"
| "Ref_EstimateSize (RArray v sel) = Inr (Regions_IndiciesCount sel)"
| "Ref_EstimateSize (RMap v keys) = Inr (int (length keys))"
| "Ref_EstimateSize (RUnion refs) =
     (case seq_all (map Ref_EstimateSize refs) of
        Inl e \<Rightarrow> Inl e
      | Inr sizes \<Rightarrow> Inr (foldl (\<lambda>result n. wrap64 (result + n)) 0 sizes))"
| "Ref_EstimateSize (RLiteral x) = Inr 1"
| "Ref_EstimateSize (RLatent a root) = Inr 0"
| "Ref_EstimateSize RNil = Inl nil_dereference"

text \<open>\<^verbatim>\<open>UnionRef.IsEmpty\<close> stops at the first member that is not empty.\<close>

fun Ref_IsEmpty :: "Ref \<Rightarrow> error + bool"
and all_empty :: "Ref list \<Rightarrow> error + bool" where
  "Ref_IsEmpty (RVar v) = Inr False"
| "Ref_IsEmpty (RArray v sel) = Inr (Regions_IndiciesCount sel = 0)"
| "Ref_IsEmpty (RMap v keys) = Inr (length keys = 0)"
| "Ref_IsEmpty (RUnion refs) = all_empty refs"
| "Ref_IsEmpty (RLiteral x) = Inr False"
| "Ref_IsEmpty (RLatent a root) = Inr True"
| "Ref_IsEmpty RNil = Inl nil_dereference"
| "all_empty [] = Inr True"
| "all_empty (ref # refs) =
     (case Ref_IsEmpty ref of
        Inl e \<Rightarrow> Inl e
      | Inr False \<Rightarrow> Inr False
      | Inr True \<Rightarrow> all_empty refs)"

text \<open>
  \<^verbatim>\<open>Vars\<close>. The variable of element \<open>index\<close> of an array reference has the key
  \<open>i\<close>, its position among the selected indices, as in the source.
\<close>

fun Ref_Vars :: "Ref \<Rightarrow> error + VarRef list" where
  "Ref_Vars (RVar v) = Inr [v]"
| "Ref_Vars (RArray v sel) =
     Inr (map (\<lambda>(i, index).
            MkVarRef (IndexLens v index) (wrap64 (wrap64 (depth v + 1) + 1))
              (identity v @ ''['' @ fmt_06d index @ '']'') (IntKey (int i)))
          (enumerate 0 (Regions_ToIndicies sel)))"
| "Ref_Vars (RMap v keys) =
     Inr (map (\<lambda>k.
            MkVarRef (KeyLens v k) (wrap64 (wrap64 (depth v + 1) + 1))
              (identity v @ ''.'' @ k) (StrKey k))
          keys)"
| "Ref_Vars (RUnion refs) =
     (case Ref_EstimateSize (RUnion refs) of
        Inl e \<Rightarrow> Inl e
      | Inr n \<Rightarrow>
          (case make_cap n of
             Some e \<Rightarrow> Inl e
           | None \<Rightarrow>
               (case seq_all (map Ref_Vars refs) of
                  Inl e \<Rightarrow> Inl e
                | Inr vs \<Rightarrow> Inr (concat vs))))"
| "Ref_Vars (RLiteral x) = Inr [MkVarRef (LiteralLens x) (- 1) ''[literal]'' NoKey]"
| "Ref_Vars (RLatent a root) = Inr []"
| "Ref_Vars RNil = Inl nil_dereference"

text \<open>
  \<^verbatim>\<open>Values\<close>. \<^verbatim>\<open>MapRef.Values\<close> reads \<^verbatim>\<open>current[key]\<close> for every selected key
  and appends it when it is not nil.
\<close>

definition MapRef_Values :: "val \<Rightarrow> VarRef \<Rightarrow> string list \<Rightarrow> error + val list" where
  "MapRef_Values data v keys =
     (case canonical_map data v of
        Inl e \<Rightarrow> Inl e
      | Inr current \<Rightarrow>
          Inr (foldl (\<lambda>result k.
                        if map_index current k \<noteq> VNil then result @ [map_index current k] else result)
                 [] keys))"

definition ArrayRef_Values :: "val \<Rightarrow> VarRef \<Rightarrow> Regions \<Rightarrow> error + val list" where
  "ArrayRef_Values data v sel =
     (case canonical_slice data v of
        Inl e \<Rightarrow> Inl e
      | Inr array \<Rightarrow> index_all array (Regions_ToIndicies sel))"

fun Ref_Values :: "val \<Rightarrow> Ref \<Rightarrow> error + val list" where
  "Ref_Values data (RVar v) =
     (case VarRef_Value data v of Inl e \<Rightarrow> Inl e | Inr x \<Rightarrow> Inr [x])"
| "Ref_Values data (RArray v sel) = ArrayRef_Values data v sel"
| "Ref_Values data (RMap v keys) = MapRef_Values data v keys"
| "Ref_Values data (RUnion refs) =
     (case Ref_EstimateSize (RUnion refs) of
        Inl e \<Rightarrow> Inl e
      | Inr n \<Rightarrow>
          (case make_cap n of
             Some e \<Rightarrow> Inl e
           | None \<Rightarrow>
               (case seq_all (map (Ref_Values data) refs) of
                  Inl e \<Rightarrow> Inl e
                | Inr vs \<Rightarrow> Inr (concat vs))))"
| "Ref_Values data (RLiteral x) = Inr [x]"
| "Ref_Values data (RLatent a root) = Inr []"
| "Ref_Values data RNil = Inl nil_dereference"

section \<open>Writing through a reference\<close>

text \<open>
  The mutating methods return Go's error (\<open>None\<close> for nil) and the document as it
  is when the method returns or panics: a mutation that fails at a later member of a
  union has already written through the earlier ones. A key path is read from the
  heap; an address beyond the heap, which no Go pointer can be, is given the panic of
  the nil dereference.
\<close>

type_synonym MutatorFunc = "string \<Rightarrow> val \<Rightarrow> error + val"
type_synonym MutateRegionsFunc = "string \<Rightarrow> val list list \<Rightarrow> error + val list list"

fun buildMapBabushka :: "string list \<Rightarrow> val \<Rightarrow> val" where
  "buildMapBabushka [] value = VMap []"
| "buildMapBabushka [k] value = VMap [(k, value)]"
| "buildMapBabushka (k # k' # ks) value = VMap [(k, buildMapBabushka (k' # ks) value)]"

definition ArrayRef_Set :: "VarRef \<Rightarrow> Regions \<Rightarrow> val \<Rightarrow> val \<Rightarrow> error option \<times> val" where
  "ArrayRef_Set v sel value data =
     (case canonical_slice data v of
        Inl e \<Rightarrow> (Some e, data)
      | Inr current \<Rightarrow>
          VarRef_SetWithMatchedType v
            (VArr (map (\<lambda>(i, x). if Regions_ContainsIndex sel (int i) then value else x)
                     (enumerate 0 current)))
            data)"

definition MapRef_Set :: "VarRef \<Rightarrow> string list \<Rightarrow> val \<Rightarrow> val \<Rightarrow> error option \<times> val" where
  "MapRef_Set v keys value data =
     (case canonical_map data v of
        Inl e \<Rightarrow> (Some e, data)
      | Inr current \<Rightarrow>
          VarRef_SetWithMatchedType v
            (VMap (foldl (\<lambda>modified k. AList.update k value modified) current keys)) data)"

fun Ref_Set :: "heap \<Rightarrow> Ref \<Rightarrow> val \<Rightarrow> val \<Rightarrow> error option \<times> val"
and set_members :: "heap \<Rightarrow> Ref list \<Rightarrow> val \<Rightarrow> val \<Rightarrow> error option \<times> val" where
  "Ref_Set h (RVar v) value data = VarRef_Set v value data"
| "Ref_Set h (RArray v sel) value data = ArrayRef_Set v sel value data"
| "Ref_Set h (RMap v keys) value data = MapRef_Set v keys value data"
| "Ref_Set h (RUnion refs) value data = set_members h refs value data"
| "Ref_Set h (RLiteral x) value data = (Some (Panic ''Attempt to set value of LiteralRef''), data)"
| "Ref_Set h (RLatent a root) value data =
     (if a < length h then
        (case root of
           RUnion refs \<Rightarrow> set_members h refs (buildMapBabushka (h ! a) value) data
         | _ \<Rightarrow> Ref_Set h root (buildMapBabushka (h ! a) value) data)
      else (Some nil_dereference, data))"
| "Ref_Set h RNil value data = (Some nil_dereference, data)"
| "set_members h [] value data = (None, data)"
| "set_members h (ref # refs) value data =
     (case Ref_Set h ref value data of
        (Some e, data') \<Rightarrow> (Some e, data')
      | (None, data') \<Rightarrow> set_members h refs value data')"

text \<open>
  \<^verbatim>\<open>Delete\<close> also returns the reference afterwards: \<^verbatim>\<open>ArrayRef.Delete\<close> clears
  the selection of its receiver when the write succeeded.
\<close>

definition ArrayRef_Delete :: "VarRef \<Rightarrow> Regions \<Rightarrow> val \<Rightarrow> error option \<times> val \<times> Regions" where
  "ArrayRef_Delete v sel data =
     (case canonical_slice data v of
        Inl e \<Rightarrow> (Some e, data, sel)
      | Inr current \<Rightarrow>
          (let regionsToKeep = Regions_Intersect [\<lparr>Start = 0, End = int (length current)\<rparr>] sel
           in case make_cap (Regions_IndiciesCount regionsToKeep) of
             Some e \<Rightarrow> (Some e, data, sel)
           | None \<Rightarrow>
               (case index_all current (Regions_ToIndicies regionsToKeep) of
                  Inl e \<Rightarrow> (Some e, data, sel)
                | Inr modified \<Rightarrow>
                    (case VarRef_SetWithMatchedType v (VArr modified) data of
                       (Some e, data') \<Rightarrow> (Some e, data', sel)
                     | (None, data') \<Rightarrow> (None, data', [])))))"

definition MapRef_Delete :: "VarRef \<Rightarrow> string list \<Rightarrow> val \<Rightarrow> error option \<times> val" where
  "MapRef_Delete v keys data =
     (case canonical_map data v of
        Inl e \<Rightarrow> (Some e, data)
      | Inr current \<Rightarrow>
          VarRef_SetWithMatchedType v
            (VMap (foldl (\<lambda>modified k. AList.delete k modified) current keys)) data)"

fun Ref_Delete :: "Ref \<Rightarrow> val \<Rightarrow> error option \<times> val \<times> Ref"
and delete_members :: "Ref list \<Rightarrow> val \<Rightarrow> error option \<times> val \<times> Ref list" where
  "Ref_Delete (RVar v) data = (Some (Failure ''Delete not supported for VarRefs''), data, RVar v)"
| "Ref_Delete (RArray v sel) data =
     (case ArrayRef_Delete v sel data of (err, data', sel') \<Rightarrow> (err, data', RArray v sel'))"
| "Ref_Delete (RMap v keys) data =
     (case MapRef_Delete v keys data of (err, data') \<Rightarrow> (err, data', RMap v keys))"
| "Ref_Delete (RUnion refs) data =
     (case delete_members refs data of (err, data', refs') \<Rightarrow> (err, data', RUnion refs'))"
| "Ref_Delete (RLiteral x) data = (Some (Panic ''Attempt to delete LiteralRef''), data, RLiteral x)"
| "Ref_Delete (RLatent a root) data = (None, data, RLatent a root)"
| "Ref_Delete RNil data = (Some nil_dereference, data, RNil)"
| "delete_members [] data = (None, data, [])"
| "delete_members (ref # refs) data =
     (case Ref_Delete ref data of
        (Some e, data', ref') \<Rightarrow> (Some e, data', ref' # refs)
      | (None, data', ref') \<Rightarrow>
          (case delete_members refs data' of (err, data'', refs') \<Rightarrow> (err, data'', ref' # refs')))"

text \<open>
  \<^verbatim>\<open>Mutate\<close>. The loops of \<^verbatim>\<open>ArrayRef.Mutate\<close> and \<^verbatim>\<open>MapRef.Mutate\<close> read the
  values of \<^verbatim>\<open>current\<close> and write into the clone \<^verbatim>\<open>modified\<close>.
\<close>

fun array_mutate_loop ::
  "VarRef \<Rightarrow> Regions \<Rightarrow> MutatorFunc \<Rightarrow> val list \<Rightarrow> int list \<Rightarrow> val list \<Rightarrow> error + val list" where
  "array_mutate_loop v sel mutator current [] modified = Inr modified"
| "array_mutate_loop v sel mutator current (i # is) modified =
     (if Regions_ContainsIndex sel i then
        (case index_slice current i of
           Inl e \<Rightarrow> Inl e
         | Inr x \<Rightarrow>
             (case mutator (identity v @ ''['' @ fmt_06d i @ '']'') x of
                Inl e \<Rightarrow> Inl e
              | Inr newValue \<Rightarrow>
                  array_mutate_loop v sel mutator current is (modified[nat i := newValue])))
      else array_mutate_loop v sel mutator current is modified)"

definition ArrayRef_Mutate :: "VarRef \<Rightarrow> Regions \<Rightarrow> MutatorFunc \<Rightarrow> val \<Rightarrow> error option \<times> val" where
  "ArrayRef_Mutate v sel mutator data =
     (case canonical_slice data v of
        Inl e \<Rightarrow> (Some e, data)
      | Inr current \<Rightarrow>
          (case array_mutate_loop v sel mutator current (Regions_ToIndicies sel) current of
             Inl e \<Rightarrow> (Some e, data)
           | Inr modified \<Rightarrow> VarRef_SetWithMatchedType v (VArr modified) data))"

fun map_mutate_loop ::
  "VarRef \<Rightarrow> MutatorFunc \<Rightarrow> (string \<times> val) list \<Rightarrow> string list \<Rightarrow> (string \<times> val) list
     \<Rightarrow> error + (string \<times> val) list" where
  "map_mutate_loop v mutator current [] modified = Inr modified"
| "map_mutate_loop v mutator current (k # ks) modified =
     (case mutator (identity v @ ''.'' @ k) (map_index current k) of
        Inl e \<Rightarrow> Inl e
      | Inr newValue \<Rightarrow> map_mutate_loop v mutator current ks (AList.update k newValue modified))"

definition MapRef_Mutate :: "VarRef \<Rightarrow> string list \<Rightarrow> MutatorFunc \<Rightarrow> val \<Rightarrow> error option \<times> val" where
  "MapRef_Mutate v keys mutator data =
     (case canonical_map data v of
        Inl e \<Rightarrow> (Some e, data)
      | Inr current \<Rightarrow>
          (case map_mutate_loop v mutator current keys current of
             Inl e \<Rightarrow> (Some e, data)
           | Inr modified \<Rightarrow> VarRef_SetWithMatchedType v (VMap modified) data))"

definition VarRef_Mutate :: "VarRef \<Rightarrow> MutatorFunc \<Rightarrow> val \<Rightarrow> error option \<times> val" where
  "VarRef_Mutate v mutator data =
     (case VarRef_Value data v of
        Inl e \<Rightarrow> (Some e, data)
      | Inr x \<Rightarrow>
          (case mutator (identity v) x of
             Inl e \<Rightarrow> (Some e, data)
           | Inr newValue \<Rightarrow> VarRef_setter v newValue data))"

fun join_dot :: "string list \<Rightarrow> string" where
  "join_dot [] = []"
| "join_dot [s] = s"
| "join_dot (s # t # ss) = s @ ''.'' @ join_dot (t # ss)"

text \<open>
  \<^verbatim>\<open>LatentMapRef.Mutate\<close> asserts that every member of its root is a
  \<^verbatim>\<open>*MapRef\<close>, calls the mutator with nil and sets the result at the key path.
\<close>

fun latent_mutate_loop ::
  "string list \<Rightarrow> Ref list \<Rightarrow> MutatorFunc \<Rightarrow> val \<Rightarrow> error option \<times> val" where
  "latent_mutate_loop keyPath [] mutator data = (None, data)"
| "latent_mutate_loop keyPath (ref # refs) mutator data =
     (case ref of
        RMap v keys \<Rightarrow>
          (case mutator (identity v @ ''.*.'' @ join_dot keyPath) VNil of
             Inl e \<Rightarrow> (Some e, data)
           | Inr value \<Rightarrow>
               (case MapRef_Set v keys (buildMapBabushka keyPath value) data of
                  (Some e, data') \<Rightarrow> (Some e, data')
                | (None, data') \<Rightarrow> latent_mutate_loop keyPath refs mutator data'))
      | _ \<Rightarrow> (Some (Panic ''interface conversion: Ref is not *MapRef''), data))"

fun Ref_Mutate :: "heap \<Rightarrow> Ref \<Rightarrow> MutatorFunc \<Rightarrow> val \<Rightarrow> error option \<times> val"
and mutate_members :: "heap \<Rightarrow> Ref list \<Rightarrow> MutatorFunc \<Rightarrow> val \<Rightarrow> error option \<times> val" where
  "Ref_Mutate h (RVar v) mutator data = VarRef_Mutate v mutator data"
| "Ref_Mutate h (RArray v sel) mutator data = ArrayRef_Mutate v sel mutator data"
| "Ref_Mutate h (RMap v keys) mutator data = MapRef_Mutate v keys mutator data"
| "Ref_Mutate h (RUnion refs) mutator data = mutate_members h refs mutator data"
| "Ref_Mutate h (RLiteral x) mutator data =
     (Some (Panic ''Attempt to mutate value of LiteralRef''), data)"
| "Ref_Mutate h (RLatent a root) mutator data =
     (if a < length h then latent_mutate_loop (h ! a) (individualRefs root) mutator data
      else (Some nil_dereference, data))"
| "Ref_Mutate h RNil mutator data = (Some nil_dereference, data)"
| "mutate_members h [] mutator data = (None, data)"
| "mutate_members h (ref # refs) mutator data =
     (case Ref_Mutate h ref mutator data of
        (Some e, data') \<Rightarrow> (Some e, data')
      | (None, data') \<Rightarrow> mutate_members h refs mutator data')"

definition ArrayRef_MutateRegions ::
  "VarRef \<Rightarrow> Regions \<Rightarrow> MutateRegionsFunc \<Rightarrow> val \<Rightarrow> error option \<times> val \<times> Regions" where
  "ArrayRef_MutateRegions v sel mutator data =
     (case canonical_slice data v of
        Inl e \<Rightarrow> (Some e, data, sel)
      | Inr original \<Rightarrow>
          (case Regions_ExtractItems sel original of
             Inl e \<Rightarrow> (Some e, data, sel)
           | Inr extract \<Rightarrow>
               (case mutator (identity v @ ''['' @ Regions_ToSliceSelector sel @ '']'') extract of
                  Inl e \<Rightarrow> (Some e, data, sel)
                | Inr modifiedExtract \<Rightarrow>
                    (case Regions_MergeItems sel original modifiedExtract of
                       Inl e \<Rightarrow> (Some e, data, sel)
                     | Inr (modified, updatedRegions) \<Rightarrow>
                         (case VarRef_SetWithMatchedType v (VArr modified) data of
                            (Some e, data') \<Rightarrow> (Some e, data', sel)
                          | (None, data') \<Rightarrow> (None, data', updatedRegions))))))"

section \<open>MatchSet\<close>

text \<open>
  A \<^verbatim>\<open>MatchSet\<close> holds the root variable, the matched reference and the flag
  \<^verbatim>\<open>mutated\<close>. Its methods take the document and return the method's result, the
  \<^verbatim>\<open>MatchSet\<close> and the document afterwards. \<^verbatim>\<open>Values\<close> has no error return.
\<close>

record MatchSet =
  root :: VarRef
  ref :: Ref
  mutated :: bool

definition already_mutated :: error where
  "already_mutated = Failure ''This extract has allready mutated once''"

definition MatchSet_Values :: "MatchSet \<Rightarrow> val \<Rightarrow> error + val list" where
  "MatchSet_Values e data =
     (if mutated e then Inl (Panic ''Values are not availible after extract has been mutated'')
      else Ref_Values data (ref e))"

definition MatchSet_Set :: "heap \<Rightarrow> val \<Rightarrow> MatchSet \<Rightarrow> val \<Rightarrow> (error + val) \<times> MatchSet \<times> val" where
  "MatchSet_Set h value e data =
     (if mutated e then (Inl already_mutated, e, data)
      else case Ref_Set h (ref e) value data of
        (Some err, data') \<Rightarrow> (Inl err, e, data')
      | (None, data') \<Rightarrow> (VarRef_Value data' (root e), e\<lparr>mutated := True\<rparr>, data'))"

definition MatchSet_Delete :: "MatchSet \<Rightarrow> val \<Rightarrow> (error + val) \<times> MatchSet \<times> val" where
  "MatchSet_Delete e data =
     (if mutated e then (Inl already_mutated, e, data)
      else case Ref_Delete (ref e) data of
        (Some err, data', ref') \<Rightarrow> (Inl err, e\<lparr>ref := ref'\<rparr>, data')
      | (None, data', ref') \<Rightarrow>
          (VarRef_Value data' (root e), e\<lparr>ref := ref', mutated := True\<rparr>, data'))"

definition MatchSet_Mutate ::
  "heap \<Rightarrow> MutatorFunc \<Rightarrow> MatchSet \<Rightarrow> val \<Rightarrow> (error + val) \<times> MatchSet \<times> val" where
  "MatchSet_Mutate h mutator e data =
     (if mutated e then (Inl already_mutated, e, data)
      else case Ref_Mutate h (ref e) mutator data of
        (Some err, data') \<Rightarrow> (Inl err, e, data')
      | (None, data') \<Rightarrow> (VarRef_Value data' (root e), e\<lparr>mutated := True\<rparr>, data'))"

text \<open>The name that \<^verbatim>\<open>%T\<close> prints for a reference.\<close>

fun type_name :: "Ref \<Rightarrow> string" where
  "type_name (RVar v) = ''*jsonmatch.VarRef''"
| "type_name (RArray v sel) = ''*jsonmatch.ArrayRef''"
| "type_name (RMap v keys) = ''*jsonmatch.MapRef''"
| "type_name (RUnion refs) = ''*jsonmatch.UnionRef''"
| "type_name (RLiteral x) = ''*jsonmatch.LiteralRef''"
| "type_name (RLatent a r) = ''*jsonmatch.LatentMapRef''"
| "type_name RNil = ''<nil>''"

text \<open>
  \<^verbatim>\<open>MatchSet.MutateRegions\<close>. The type switch has a case for \<^verbatim>\<open>*ArrayRef\<close> and a
  case for \<^verbatim>\<open>*UnionRef\<close> and no default: for any other reference \<^verbatim>\<open>arrayRefs\<close>
  stays nil, the loop over it does nothing, and the method goes on to set the flag.
\<close>

fun collect_array_refs :: "Ref list \<Rightarrow> error + (VarRef \<times> Regions) list" where
  "collect_array_refs [] = Inr []"
| "collect_array_refs (r # refs) =
     (case r of
        RArray v sel \<Rightarrow>
          (case collect_array_refs refs of Inl e \<Rightarrow> Inl e | Inr arrayRefs \<Rightarrow> Inr ((v, sel) # arrayRefs))
      | _ \<Rightarrow>
          Inl (Failure (''Cannot mutate regions of a '' @ type_name r
                 @ '' ref. All selected values must be array members'')))"

fun mutate_regions_loop ::
  "(VarRef \<times> Regions) list \<Rightarrow> MutateRegionsFunc \<Rightarrow> val
     \<Rightarrow> error option \<times> val \<times> (VarRef \<times> Regions) list" where
  "mutate_regions_loop [] mutator data = (None, data, [])"
| "mutate_regions_loop ((v, sel) # arrayRefs) mutator data =
     (case ArrayRef_MutateRegions v sel mutator data of
        (Some e, data', sel') \<Rightarrow> (Some e, data', (v, sel') # arrayRefs)
      | (None, data', sel') \<Rightarrow>
          (case mutate_regions_loop arrayRefs mutator data' of
             (err, data'', arrayRefs') \<Rightarrow> (err, data'', (v, sel') # arrayRefs')))"

definition MatchSet_MutateRegions ::
  "MutateRegionsFunc \<Rightarrow> MatchSet \<Rightarrow> val \<Rightarrow> (error + val) \<times> MatchSet \<times> val" where
  "MatchSet_MutateRegions mutator e data =
     (if mutated e then (Inl already_mutated, e, data)
      else case ref e of
        RArray v sel \<Rightarrow>
          (case ArrayRef_MutateRegions v sel mutator data of
             (Some err, data', sel') \<Rightarrow> (Inl err, e\<lparr>ref := RArray v sel'\<rparr>, data')
           | (None, data', sel') \<Rightarrow>
               (VarRef_Value data' (root e), e\<lparr>ref := RArray v sel', mutated := True\<rparr>, data'))
      | RUnion refs \<Rightarrow>
          (case collect_array_refs refs of
             Inl err \<Rightarrow> (Inl err, e, data)
           | Inr arrayRefs \<Rightarrow>
               (case mutate_regions_loop arrayRefs mutator data of
                  (Some err, data', arrayRefs') \<Rightarrow>
                    (Inl err, e\<lparr>ref := RUnion (map (\<lambda>(v, sel). RArray v sel) arrayRefs')\<rparr>, data')
                | (None, data', arrayRefs') \<Rightarrow>
                    (VarRef_Value data' (root e),
                     e\<lparr>ref := RUnion (map (\<lambda>(v, sel). RArray v sel) arrayRefs'), mutated := True\<rparr>,
                     data')))
      | _ \<Rightarrow> (VarRef_Value data (root e), e\<lparr>mutated := True\<rparr>, data))"

text \<open>The root variable that \<^verbatim>\<open>Expression.Match\<close> makes.\<close>

definition rootVar :: VarRef where
  "rootVar = MkVarRef RootLens 0 ''$'' NoKey"

section \<open>match.go: index, slice and field nodes\<close>

record indexNode =
  index_pos :: int
  index_sealed :: bool
  index_value :: int

record sliceNode =
  slice_pos :: int
  slice_start :: int
  slice_end :: int
  slice_step :: int
  startSpecified :: bool
  endSpecified :: bool
  stepSpecified :: bool

record fieldNode =
  field_pos :: int
  field_name :: string

record existingFieldNode =
  existing_pos :: int
  existing_name :: string

text \<open>
  \<^verbatim>\<open>processIndex\<close>: the loop over \<^verbatim>\<open>input.Vars()\<close> with the result so far.
  \<^verbatim>\<open>index += len(value)\<close> runs for a negative index and \<^verbatim>\<open>index + 1\<close> for an
  index below the length, so neither leaves the range of \<^verbatim>\<open>int\<close>.
\<close>

fun process_index_loop :: "val \<Rightarrow> indexNode \<Rightarrow> VarRef list \<Rightarrow> Ref \<Rightarrow> error + Ref" where
  "process_index_loop data node [] result = Inr result"
| "process_index_loop data node (varRef # vars) result =
     (case VarRef_IsSlice data varRef of
        Inl e \<Rightarrow> Inl e
      | Inr False \<Rightarrow> process_index_loop data node vars result
      | Inr True \<Rightarrow>
          (case canonical_slice data varRef of
             Inl e \<Rightarrow> Inl e
           | Inr slice \<Rightarrow>
               (if length slice = 0 \<and> (index_value node = 0 \<or> index_value node = - 1) then
                  (case NewArrayRef data varRef [\<lparr>Start = 0, End = 0\<rparr>] of
                     Inl e \<Rightarrow> Inl e
                   | Inr arrayRef \<Rightarrow>
                       (case Ref_Union result [arrayRef] of
                          Inl e \<Rightarrow> Inl e
                        | Inr result' \<Rightarrow> process_index_loop data node vars result'))
                else
                  (let index = (if index_value node < 0 then index_value node + int (length slice)
                                else index_value node)
                   in if index \<ge> 0 \<and> index < int (length slice) then
                        (case NewArrayRef data varRef [\<lparr>Start = index, End = index + 1\<rparr>] of
                           Inl e \<Rightarrow> Inl e
                         | Inr arrayRef \<Rightarrow>
                             (case Ref_Union result [arrayRef] of
                                Inl e \<Rightarrow> Inl e
                              | Inr result' \<Rightarrow> process_index_loop data node vars result'))
                      else process_index_loop data node vars result))))"

definition processIndex :: "val \<Rightarrow> Ref \<Rightarrow> indexNode \<Rightarrow> error + Ref" where
  "processIndex data input node =
     (case Ref_Vars input of
        Inl e \<Rightarrow> Inl e
      | Inr vars \<Rightarrow> process_index_loop data node vars NewEmptyRef)"

text \<open>
  \<^verbatim>\<open>processSlice\<close>. The loop \<^verbatim>\<open>for i := start; i < end; i += step\<close> need not end
  (a step of \<open>- 2 ^ 63\<close> returns to the same \<open>i\<close> every second pass), so it is a
  partial function: \<open>None\<close> is the run that does not return. \<open>slice_selection\<close> is
  the body of the loop over the variables up to the regions it selects on an array of
  length \<open>n\<close>. Memory has no limit here: \<^verbatim>\<open>make\<close> panics for a negative capacity
  only, where the runtime also refuses a capacity beyond what it can allocate, and
  the index list grows as long as the loop runs, where the program runs out of memory
  first.
\<close>

partial_function (option) slice_indicies :: "int \<Rightarrow> int \<Rightarrow> int \<Rightarrow> int list \<Rightarrow> int list option" where
  "slice_indicies i end' step indicies =
     (if i < end' then slice_indicies (wrap64 (i + step)) end' step (indicies @ [i])
      else Some indicies)"

declare slice_indicies.simps [code]

definition slice_selection :: "sliceNode \<Rightarrow> int \<Rightarrow> (error + Regions) option" where
  "slice_selection node n =
     (let start0 = (if startSpecified node then slice_start node else 0);
          start1 = (if start0 < 0 then start0 + n else start0);
          end0 = (if endSpecified node then slice_end node else n);
          end1 = (if end0 < 0 then end0 + n else end0);
          start2 = (if start1 < 0 then 0 else start1);
          end2 = (if end1 > n then n else end1);
          zero = (stepSpecified node \<and> slice_step node = 0);
          end3 = (if zero \<and> end2 \<noteq> start2 then wrap64 (start2 + 1) else end2);
          step = (if stepSpecified node then (if zero then 1 else slice_step node) else 1)
      in if step = 1 then Some (Inr [\<lparr>Start = start2, End = end3\<rparr>])
         else
           (let start = (if step < 0 then end3 else start2);
                end' = (if step < 0 then start2 else end3)
            in if wrap64 (end' - start) < 0
               then Some (Inl (Panic ''runtime error: makeslice: cap out of range''))
               else case slice_indicies start end' step [] of
                 None \<Rightarrow> None
               | Some indicies \<Rightarrow> Some (Inr (NewRegionForEachIndex indicies))))"

fun process_slice_loop :: "val \<Rightarrow> sliceNode \<Rightarrow> VarRef list \<Rightarrow> Ref \<Rightarrow> (error + Ref) option" where
  "process_slice_loop data node [] result = Some (Inr result)"
| "process_slice_loop data node (varRef # vars) result =
     (case VarRef_IsSlice data varRef of
        Inl e \<Rightarrow> Some (Inl e)
      | Inr False \<Rightarrow> process_slice_loop data node vars result
      | Inr True \<Rightarrow>
          (case canonical_slice data varRef of
             Inl e \<Rightarrow> Some (Inl e)
           | Inr slice \<Rightarrow>
               (case slice_selection node (int (length slice)) of
                  None \<Rightarrow> None
                | Some (Inl e) \<Rightarrow> Some (Inl e)
                | Some (Inr regions) \<Rightarrow>
                    (case NewArrayRef data varRef regions of
                       Inl e \<Rightarrow> Some (Inl e)
                     | Inr arrayRef \<Rightarrow>
                         (case Ref_Union result [arrayRef] of
                            Inl e \<Rightarrow> Some (Inl e)
                          | Inr result' \<Rightarrow> process_slice_loop data node vars result')))))"

definition processSlice :: "val \<Rightarrow> Ref \<Rightarrow> sliceNode \<Rightarrow> (error + Ref) option" where
  "processSlice data input node =
     (case Ref_Vars input of
        Inl e \<Rightarrow> Some (Inl e)
      | Inr vars \<Rightarrow> process_slice_loop data node vars NewEmptyRef)"

text \<open>
  \<^verbatim>\<open>processFieldSelection\<close> takes and returns the heap: \<^verbatim>\<open>GetLatentMapRef\<close>
  makes new \<^verbatim>\<open>LatentMapRef\<close> objects and \<^verbatim>\<open>AddKey\<close> assigns the field
  \<^verbatim>\<open>keyPath\<close> of the object it is called on.
\<close>

definition is_map :: "val \<Rightarrow> bool" where
  "is_map content = (case content of VMap _ \<Rightarrow> True | _ \<Rightarrow> False)"

definition MapRef_GetLatentMapRef ::
  "val \<Rightarrow> VarRef \<Rightarrow> string list \<Rightarrow> heap \<Rightarrow> (error + (nat \<times> Ref) option) \<times> heap" where
  "MapRef_GetLatentMapRef data v keys h =
     (case canonical_map data v of
        Inl e \<Rightarrow> (Inl e, h)
      | Inr current \<Rightarrow>
          (let missingKeys =
                 filter (\<lambda>k. case map_of current k of
                                None \<Rightarrow> True
                              | Some content \<Rightarrow> content = VNil \<or> \<not> is_map content) keys
           in if length missingKeys > 0 then
                (case NewMapRef data v missingKeys of
                   Inl e \<Rightarrow> (Inl e, h)
                 | Inr mapRef \<Rightarrow>
                     (case NewLatentMapRef mapRef [] h of (latent, h') \<Rightarrow> (Inr (Some latent), h')))
              else (Inr None, h)))"

fun latent_refs_loop :: "val \<Rightarrow> Ref list \<Rightarrow> heap \<Rightarrow> (error + (nat \<times> Ref) list) \<times> heap" where
  "latent_refs_loop data [] h = (Inr [], h)"
| "latent_refs_loop data (r # refs) h =
     (case r of
        RMap v keys \<Rightarrow>
          (case MapRef_GetLatentMapRef data v keys h of
             (Inl e, h') \<Rightarrow> (Inl e, h')
           | (Inr None, h') \<Rightarrow> latent_refs_loop data refs h'
           | (Inr (Some latent), h') \<Rightarrow>
               (case latent_refs_loop data refs h' of
                  (Inl e, h'') \<Rightarrow> (Inl e, h'')
                | (Inr result, h'') \<Rightarrow> (Inr (latent # result), h'')))
      | RLatent a root' \<Rightarrow>
          (case latent_refs_loop data refs h of
             (Inl e, h') \<Rightarrow> (Inl e, h')
           | (Inr result, h') \<Rightarrow> (Inr ((a, root') # result), h'))
      | _ \<Rightarrow> latent_refs_loop data refs h)"

definition latentMapRefs :: "val \<Rightarrow> Ref \<Rightarrow> heap \<Rightarrow> (error + (nat \<times> Ref) list) \<times> heap" where
  "latentMapRefs data r h = latent_refs_loop data (individualRefs r) h"

fun field_vars_loop :: "val \<Rightarrow> string \<Rightarrow> bool \<Rightarrow> VarRef list \<Rightarrow> Ref \<Rightarrow> error + Ref" where
  "field_vars_loop data name requireFieldToExist [] results = Inr results"
| "field_vars_loop data name requireFieldToExist (varRef # vars) results =
     (case VarRef_IsMap data varRef of
        Inl e \<Rightarrow> Inl e
      | Inr False \<Rightarrow> field_vars_loop data name requireFieldToExist vars results
      | Inr True \<Rightarrow>
          (case (if requireFieldToExist then
                   (case canonical_map data varRef of
                      Inl e \<Rightarrow> Inl e
                    | Inr current \<Rightarrow> Inr (map_of current name \<noteq> None))
                 else Inr True) of
             Inl e \<Rightarrow> Inl e
           | Inr False \<Rightarrow> field_vars_loop data name requireFieldToExist vars results
           | Inr True \<Rightarrow>
               (case NewMapRef data varRef [name] of
                  Inl e \<Rightarrow> Inl e
                | Inr mapRef \<Rightarrow>
                    (case Ref_Union results [mapRef] of
                       Inl e \<Rightarrow> Inl e
                     | Inr results' \<Rightarrow>
                         field_vars_loop data name requireFieldToExist vars results'))))"

fun add_key_loop :: "string \<Rightarrow> (nat \<times> Ref) list \<Rightarrow> Ref \<Rightarrow> heap \<Rightarrow> (error + Ref) \<times> heap" where
  "add_key_loop name [] results h = (Inr results, h)"
| "add_key_loop name ((a, root') # latents) results h =
     (let h' = LatentMapRef_AddKey a name h
      in case Ref_Union results [RLatent a root'] of
           Inl e \<Rightarrow> (Inl e, h')
         | Inr results' \<Rightarrow> add_key_loop name latents results' h')"

definition processFieldSelection ::
  "val \<Rightarrow> Ref \<Rightarrow> string \<Rightarrow> bool \<Rightarrow> heap \<Rightarrow> (error + Ref) \<times> heap" where
  "processFieldSelection data input name requireFieldToExist h =
     (case Ref_Vars input of
        Inl e \<Rightarrow> (Inl e, h)
      | Inr vars \<Rightarrow>
          (case field_vars_loop data name requireFieldToExist vars NewEmptyRef of
             Inl e \<Rightarrow> (Inl e, h)
           | Inr results \<Rightarrow>
               (if \<not> requireFieldToExist then
                  (case latentMapRefs data input h of
                     (Inl e, h') \<Rightarrow> (Inl e, h')
                   | (Inr latents, h') \<Rightarrow> add_key_loop name latents results h')
                else (Inr results, h))))"

definition processField :: "val \<Rightarrow> Ref \<Rightarrow> fieldNode \<Rightarrow> heap \<Rightarrow> (error + Ref) \<times> heap" where
  "processField data input node h = processFieldSelection data input (field_name node) False h"

definition processExistingField ::
  "val \<Rightarrow> Ref \<Rightarrow> existingFieldNode \<Rightarrow> heap \<Rightarrow> (error + Ref) \<times> heap" where
  "processExistingField data input node h =
     processFieldSelection data input (existing_name node) True h"

text \<open>
  \<^verbatim>\<open>process\<close> with \<^verbatim>\<open>processPath\<close> and \<^verbatim>\<open>processUnion\<close>, on the nodes for
  a path, a string, a field, an existing field, an index, a slice, an int, a union
  and self. The filter node (its comparisons are in the package \<^verbatim>\<open>template\<close>),
  the float literal, the wildcard and the recursive descent are not among the nodes
  here. \<open>process_path_loop\<close> is the loop of \<^verbatim>\<open>processPath\<close> with the result so
  far as its input; \<open>process_union_loop\<close> is the loop of \<^verbatim>\<open>processUnion\<close>, which
  evaluates every member against the same input, with the result so far. The heap
  goes from one evaluation to the next.
\<close>

datatype node =
    PathNode int "node list"
  | StringNode int string
  | FieldNode fieldNode
  | ExistingFieldNode existingFieldNode
  | IndexNode indexNode
  | SliceNode sliceNode
  | IntNode int int
  | UnionNode int "node list"
  | SelfNode int

fun process :: "val \<Rightarrow> Ref \<Rightarrow> node \<Rightarrow> heap \<Rightarrow> ((error + Ref) \<times> heap) option"
and process_path_loop :: "val \<Rightarrow> Ref \<Rightarrow> node list \<Rightarrow> heap \<Rightarrow> ((error + Ref) \<times> heap) option"
and process_union_loop ::
  "val \<Rightarrow> Ref \<Rightarrow> node list \<Rightarrow> Ref \<Rightarrow> heap \<Rightarrow> ((error + Ref) \<times> heap) option" where
  "process data input (PathNode pos nodes) h = process_path_loop data input nodes h"
| "process data input (StringNode pos s) h = Some (Inr (NewLiteralRef (VStr s)), h)"
| "process data input (FieldNode n) h = Some (processField data input n h)"
| "process data input (ExistingFieldNode n) h = Some (processExistingField data input n h)"
| "process data input (IndexNode n) h = Some (processIndex data input n, h)"
| "process data input (SliceNode n) h =
     (case processSlice data input n of None \<Rightarrow> None | Some r \<Rightarrow> Some (r, h))"
| "process data input (IntNode pos i) h = Some (Inr (NewLiteralRef (VInt i)), h)"
| "process data input (UnionNode pos nodes) h = process_union_loop data input nodes NewEmptyRef h"
| "process data input (SelfNode pos) h = Some (Inr input, h)"
| "process_path_loop data result [] h = Some (Inr result, h)"
| "process_path_loop data result (n # nodes) h =
     (case process data result n h of
        None \<Rightarrow> None
      | Some (Inl e, h') \<Rightarrow> Some (Inl e, h')
      | Some (Inr result', h') \<Rightarrow> process_path_loop data result' nodes h')"
| "process_union_loop data input [] result h = Some (Inr result, h)"
| "process_union_loop data input (pathNode # nodes) result h =
     (case process data input pathNode h of
        None \<Rightarrow> None
      | Some (Inl e, h') \<Rightarrow> Some (Inl e, h')
      | Some (Inr subset', h') \<Rightarrow>
          (case Ref_Union result [subset'] of
             Inl e \<Rightarrow> Some (Inl e, h')
           | Inr result' \<Rightarrow> process_union_loop data input nodes result' h'))"

text \<open>
  \<^verbatim>\<open>Expression.Match\<close>: the root variable \<open>$\<close> over the document, the expression
  evaluated against it, and the \<^verbatim>\<open>MatchSet\<close> of the result. No
  \<^verbatim>\<open>LatentMapRef\<close> exists before the evaluation.
\<close>

definition Expression_Match :: "node \<Rightarrow> val \<Rightarrow> ((error + MatchSet) \<times> heap) option" where
  "Expression_Match expr data =
     (case process data (RVar rootVar) expr [] of
        None \<Rightarrow> None
      | Some (Inl e, h) \<Rightarrow> Some (Inl e, h)
      | Some (Inr r, h) \<Rightarrow> Some (Inr \<lparr>root = rootVar, ref = r, mutated = False\<rparr>, h))"

text \<open>
  For stating what \<^verbatim>\<open>processFieldSelection\<close> does to the heap: the addresses of
  the \<^verbatim>\<open>LatentMapRef\<close> objects among a list of references, one entry for each
  occurrence.
\<close>

definition latent_addresses :: "Ref list \<Rightarrow> nat list" where
  "latent_addresses refs = concat (map (\<lambda>r. case r of RLatent a root' \<Rightarrow> [a] | _ \<Rightarrow> []) refs)"

text \<open>
  For stating where the union of region sets does not depend on the order of its
  operands: a region with at least one element.
\<close>

definition proper :: "Region \<Rightarrow> bool" where
  "proper r = (Start r < End r)"

section \<open>Region arithmetic: cutting, overlap, union\<close>

lemma wrap64_id: "- (2 ^ 63) \<le> x \<Longrightarrow> x < 2 ^ 63 \<Longrightarrow> wrap64 x = x"
  unfolding wrap64_def by (simp add: zmod_trivial_iff)

lemma Region_Cut_strictly_before:
  "End other < Start r \<Longrightarrow> Region_Cut r other = Region_Shift r (wrap64 (- Region_Len other))"
  by (simp add: Region_Cut_def)

text \<open>
  C5. A region \<open>other\<close> that ends exactly where \<open>r\<close> starts is fully before \<open>r\<close>, and
  cutting it from the array moves \<open>r\<close> down by \<open>other.Len()\<close>: \<open>[5,8)\<close> after cutting
  \<open>[2,5)\<close> is \<open>[2,5)\<close>. The first test of \<^verbatim>\<open>Cut\<close> is \<^verbatim>\<open>other.End < r.Start\<close>, so
  the adjacent case runs through to the final \<^verbatim>\<open>Shrink\<close> and the region comes out
  as the empty \<open>[5,5)\<close>, while it is neither shifted nor equal to the shifted region.
\<close>

theorem Region_Cut_adjacent_before_shrinks:
  "End \<lparr>Start = 2, End = 5\<rparr> \<le> Start \<lparr>Start = 5, End = 8\<rparr>
   \<and> Region_Cut \<lparr>Start = 5, End = 8\<rparr> \<lparr>Start = 2, End = 5\<rparr> = \<lparr>Start = 5, End = 5\<rparr>
   \<and> Region_Shift \<lparr>Start = 5, End = 8\<rparr> (- Region_Len \<lparr>Start = 2, End = 5\<rparr>)
       = \<lparr>Start = 2, End = 5\<rparr>
   \<and> Region_Cut \<lparr>Start = 5, End = 8\<rparr> \<lparr>Start = 2, End = 5\<rparr>
       \<noteq> Region_Shift \<lparr>Start = 5, End = 8\<rparr> (- Region_Len \<lparr>Start = 2, End = 5\<rparr>)"
  by (simp add: Region_Cut_def Region_Shift_def Region_Shrink_def Region_Len_def wrap64_def)

text \<open>
  C6. A zero-length region is meant never to overlap anything. \<^verbatim>\<open>Overlap\<close> tests the
  end points only, and by design a zero-length region \<open>[p,p)\<close> that lies strictly
  inside \<open>r\<close> overlaps it, in either argument position (the union of region sets
  relies on it to absorb such a region). As the receiver it overlaps in no other
  case; as the argument it does not overlap \<open>r\<close> when \<open>p\<close> is before the start of
  \<open>r\<close> or at or after its end. The case of the argument \<open>[p,p)\<close> at the very start of
  \<open>r\<close> is left open here.
\<close>

theorem Region_Overlap_zero_length:
  "Region_Overlap \<lparr>Start = p, End = p\<rparr> r = (Start r < p \<and> p < End r)
   \<and> (Start r < p \<and> p < End r \<longrightarrow> Region_Overlap r \<lparr>Start = p, End = p\<rparr>)
   \<and> (p < Start r \<or> End r \<le> p \<longrightarrow> \<not> Region_Overlap r \<lparr>Start = p, End = p\<rparr>)"
  by (auto simp: Region_Overlap_def)

theorem Region_Overlap_zero_length_witness:
  "Region_Overlap \<lparr>Start = 5, End = 5\<rparr> \<lparr>Start = 4, End = 6\<rparr>
   \<and> Region_Overlap \<lparr>Start = 4, End = 6\<rparr> \<lparr>Start = 5, End = 5\<rparr>
   \<and> \<not> Region_Overlap \<lparr>Start = 5, End = 5\<rparr> \<lparr>Start = 5, End = 6\<rparr>
   \<and> \<not> Region_Overlap \<lparr>Start = 0, End = 5\<rparr> \<lparr>Start = 5, End = 5\<rparr>"
  using Region_Overlap_zero_length [of 5 "\<lparr>Start = 4, End = 6\<rparr>"]
        Region_Overlap_zero_length [of 5 "\<lparr>Start = 5, End = 6\<rparr>"]
        Region_Overlap_zero_length [of 5 "\<lparr>Start = 0, End = 5\<rparr>"]
  by simp

theorem Region_Overlap_zero_length_inside_counterexample:
  "Region_Empty \<lparr>Start = 5, End = 5\<rparr>
   \<and> Region_Overlap \<lparr>Start = 5, End = 5\<rparr> \<lparr>Start = 4, End = 6\<rparr>
   \<and> Region_Overlap \<lparr>Start = 4, End = 6\<rparr> \<lparr>Start = 5, End = 5\<rparr>"
  by (simp add: Region_Overlap_def Region_Empty_def Region_Len_def wrap64_def)

text \<open>
  When no region of either operand is zero-length, \<^verbatim>\<open>Union\<close> gives the same set
  in both orders, whether or not the operands are sorted: the loop takes the
  smaller start first, joins what overlaps the pending region, and the joins
  commute.
\<close>

lemma Overlap_proper: "proper a \<Longrightarrow> proper b \<Longrightarrow> Region_Overlap a b = (Start a < End b \<and> Start b < End a)"
  by (auto simp: Region_Overlap_def proper_def)

lemma Join_commute: "Region_Join a b = Region_Join b a"
  by (auto simp: Region_Join_def)

lemma Join_proper: "proper a \<Longrightarrow> proper b \<Longrightarrow> proper (Region_Join a b)"
  by (auto simp: Region_Join_def proper_def)

lemma Join_assoc_swap: "Region_Join (Region_Join n a) b = Region_Join (Region_Join n b) a"
  by (auto simp: Region_Join_def)

lemma Overlap_Join: "proper n \<Longrightarrow> proper a \<Longrightarrow> proper b \<Longrightarrow> Region_Overlap n b \<Longrightarrow> Region_Overlap (Region_Join n a) b"
  by (auto simp: Overlap_proper Join_proper) (auto simp: Region_Join_def)

lemma Equal_imp_Overlap: "proper n \<Longrightarrow> proper a \<Longrightarrow> Region_Equal n a \<Longrightarrow> Region_Overlap n a"
  by (auto simp: Overlap_proper Region_Equal_def proper_def)

lemma union_loop_commute:
  "\<forall>x \<in> set l \<union> set r. proper x \<Longrightarrow> (\<forall>x. n = Some x \<longrightarrow> proper x) \<Longrightarrow>
   union_loop l r n res = union_loop r l n res"
proof (induction "2 * (length l + length r) + (case n of None \<Rightarrow> 0 | Some _ \<Rightarrow> 1)"
        arbitrary: l r n res rule: less_induct)
  case less
  show ?case
  proof (cases n)
    case None
    show ?thesis
    proof (cases l)
      case Nil
      then show ?thesis using None by (cases r) (simp_all add: union_loop.simps)
    next
      case lc: (Cons hl tl')
      show ?thesis
      proof (cases r)
        case Nil
        then show ?thesis using None lc by (simp add: union_loop.simps)
      next
        case rc: (Cons hr tr)
        have phl: "proper hl" and phr: "proper hr" using less.prems lc rc by auto
        consider "Start hl < Start hr" | "Start hr < Start hl" | "Start hl = Start hr" by linarith
        then show ?thesis
        proof cases
          case 1
          have "union_loop l r n res = union_loop tl' r (Some (Region_Clone hl)) res"
            using None lc rc 1 by (subst union_loop.simps) simp
          also have "\<dots> = union_loop r tl' (Some (Region_Clone hl)) res"
            using less.prems lc rc phl by (intro less.hyps) (auto simp: None Region_Clone_def proper_def)
          also have "\<dots> = union_loop r l n res"
            using None lc rc 1 by (subst (2) union_loop.simps) simp
          finally show ?thesis .
        next
          case 2
          have "union_loop l r n res = union_loop l tr (Some (Region_Clone hr)) res"
            using None lc rc 2 by (subst union_loop.simps) simp
          also have "\<dots> = union_loop tr l (Some (Region_Clone hr)) res"
            using less.prems lc rc phr by (intro less.hyps) (auto simp: None Region_Clone_def proper_def)
          also have "\<dots> = union_loop r l n res"
            using None lc rc 2 by (subst (2) union_loop.simps) simp
          finally show ?thesis .
        next
          case 3
          have c: "Region_Clone hl = hl" "Region_Clone hr = hr" by (simp_all add: Region_Clone_def)
          have ov: "Region_Overlap hr hl" "Region_Overlap hl hr"
            using 3 phl phr by (auto simp: Overlap_proper proper_def)
          have "union_loop l r n res = union_loop l tr (Some hr) res"
            using None lc rc 3 c by (subst union_loop.simps) simp
          also have "\<dots> = union_loop tl' tr (Some (Region_Join hr hl)) res"
            using lc ov by (subst union_loop.simps) simp
          also have "\<dots> = union_loop tr tl' (Some (Region_Join hr hl)) res"
            using less.prems lc rc phl phr
            by (intro less.hyps) (auto simp: None Join_proper)
          also have "\<dots> = union_loop r tl' (Some hl) res"
            using rc ov by (subst (2) union_loop.simps) (simp add: Join_commute)
          also have "\<dots> = union_loop r l n res"
            using None lc rc 3 c by (subst (2) union_loop.simps) simp
          finally show ?thesis .
        qed
      qed
    qed
  next
    case (Some x)
    then have px: "proper x" using less.prems by simp
    define ol where "ol = (l \<noteq> [] \<and> Region_Overlap x (hd l))"
    define or' where "or' = (r \<noteq> [] \<and> Region_Overlap x (hd r))"
    have el: "l \<noteq> [] \<Longrightarrow> \<not> Region_Overlap x (hd l) \<Longrightarrow> \<not> Region_Equal x (hd l)"
      using Equal_imp_Overlap [OF px, of "hd l"] less.prems by (cases l) auto
    have er: "r \<noteq> [] \<Longrightarrow> \<not> Region_Overlap x (hd r) \<Longrightarrow> \<not> Region_Equal x (hd r)"
      using Equal_imp_Overlap [OF px, of "hd r"] less.prems by (cases r) auto
    have step_l: "ol \<Longrightarrow> union_loop l r' (Some x) res' = union_loop (tl l) r' (Some (Region_Join x (hd l))) res'"
      for r' res'
      by (subst union_loop.simps) (simp add: ol_def)
    have step_r: "or' \<Longrightarrow> union_loop r l' (Some x) res' = union_loop (tl r) l' (Some (Region_Join x (hd r))) res'"
      for l' res'
      by (subst union_loop.simps) (simp add: or'_def)
    have pl: "l \<noteq> [] \<Longrightarrow> proper (hd l)"
      using less.prems(1) by (cases l) auto
    have pr: "r \<noteq> [] \<Longrightarrow> proper (hd r)"
      using less.prems(1) by (cases r) auto
    have ptl: "\<forall>y \<in> set (tl l). proper y"
      using less.prems(1) by (cases l) auto
    have ptr: "\<forall>y \<in> set (tl r). proper y"
      using less.prems(1) by (cases r) auto
    consider (both) "ol" "or'" | (left) "ol" "\<not> or'" | (right) "\<not> ol" "or'" | (none) "\<not> ol" "\<not> or'"
      by blast
    then show ?thesis
    proof cases
      case both
      then have ne: "l \<noteq> []" "r \<noteq> []" by (simp_all add: ol_def or'_def)
      have o1: "Region_Overlap (Region_Join x (hd l)) (hd r)"
        using both px pl pr ne by (auto simp: ol_def or'_def intro: Overlap_Join)
      have o2: "Region_Overlap (Region_Join x (hd r)) (hd l)"
        using both px pl pr ne by (auto simp: ol_def or'_def intro: Overlap_Join)
      have "union_loop l r n res = union_loop (tl l) r (Some (Region_Join x (hd l))) res"
        using step_l both Some by simp
      also have "\<dots> = union_loop r (tl l) (Some (Region_Join x (hd l))) res"
        using less.prems ptl px pl ne
        by (intro less.hyps) (auto simp: Some Join_proper)
      also have "\<dots> = union_loop (tl r) (tl l) (Some (Region_Join (Region_Join x (hd l)) (hd r))) res"
        using ne o1 by (subst union_loop.simps) simp
      finally have lhs: "union_loop l r n res
          = union_loop (tl r) (tl l) (Some (Region_Join (Region_Join x (hd l)) (hd r))) res" .
      have "union_loop r l n res = union_loop (tl r) l (Some (Region_Join x (hd r))) res"
        using step_r both Some by simp
      also have "\<dots> = union_loop l (tl r) (Some (Region_Join x (hd r))) res"
        using less.prems ptr px pr ne
        by (intro less.hyps) (auto simp: Some Join_proper)
      also have "\<dots> = union_loop (tl l) (tl r) (Some (Region_Join (Region_Join x (hd r)) (hd l))) res"
        using ne o2 by (subst union_loop.simps) simp
      also have "\<dots> = union_loop (tl r) (tl l) (Some (Region_Join (Region_Join x (hd r)) (hd l))) res"
        using ptl ptr px pl pr ne
        by (intro less.hyps) (auto simp: Some Join_proper length_greater_0_conv [symmetric] simp del: length_greater_0_conv)
      finally have rhs: "union_loop r l n res
          = union_loop (tl r) (tl l) (Some (Region_Join (Region_Join x (hd r)) (hd l))) res" .
      show ?thesis unfolding lhs rhs by (simp add: Join_assoc_swap)
    next
      case left
      then have ne: "l \<noteq> []" by (simp add: ol_def)
      have "union_loop l r n res = union_loop (tl l) r (Some (Region_Join x (hd l))) res"
        using step_l left Some by simp
      also have "\<dots> = union_loop r (tl l) (Some (Region_Join x (hd l))) res"
        using less.prems ptl px pl ne
        by (intro less.hyps) (auto simp: Some Join_proper)
      also have "\<dots> = union_loop r l n res"
        using left ne er Some by (subst (2) union_loop.simps) (auto simp: ol_def or'_def)
      finally show ?thesis .
    next
      case right
      then have ne: "r \<noteq> []" by (simp add: or'_def)
      have "union_loop l r n res = union_loop l (tl r) (Some (Region_Join x (hd r))) res"
        using right ne el Some by (subst union_loop.simps) (auto simp: ol_def or'_def)
      also have "\<dots> = union_loop (tl r) l (Some (Region_Join x (hd r))) res"
        using less.prems ptr px pr ne
        by (intro less.hyps) (auto simp: Some Join_proper)
      also have "\<dots> = union_loop r l n res"
        using step_r right Some by simp
      finally show ?thesis .
    next
      case none
      show ?thesis
      proof (cases "l = [] \<and> r = []")
        case True
        then show ?thesis by simp
      next
        case False
        have "union_loop l r n res = union_loop l r None (res @ [x])"
          using none False el er Some by (subst union_loop.simps) (auto simp: ol_def or'_def)
        also have "\<dots> = union_loop r l None (res @ [x])"
          using less.prems by (intro less.hyps) (auto simp: Some)
        also have "\<dots> = union_loop r l n res"
          using none False el er Some by (subst (2) union_loop.simps) (auto simp: ol_def or'_def)
        finally show ?thesis .
      qed
    qed
  qed
qed

lemma Regions_Union_commute_proper:
  "\<forall>x \<in> set A \<union> set B. Start x < End x \<Longrightarrow> Regions_Union A B = Regions_Union B A"
  using union_loop_commute [of A B None "[]"]
  by (auto simp: Regions_Union_def proper_def)

text \<open>
  C7. The union of two sorted, non-overlapping region sets is meant not to depend on
  the order of the operands, and a zero-length region next to a longer one is meant
  to be kept. For \<open>A = {[0,0)}\<close> and \<open>B = {[0,5)}\<close> both sets pass \<^verbatim>\<open>Check\<close>;
  \<open>A.Union(B)\<close> is \<open>{[0,5)}\<close>, the seam lost, and \<open>B.Union(A)\<close> is
  \<open>{[0,0), [0,5)}\<close>.
\<close>

theorem Regions_Union_seam_at_start_depends_on_order:
  "Regions_Check [\<lparr>Start = 0, End = 0\<rparr>] \<and> Regions_Check [\<lparr>Start = 0, End = 5\<rparr>]
   \<and> Regions_Union [\<lparr>Start = 0, End = 0\<rparr>] [\<lparr>Start = 0, End = 5\<rparr>] = [\<lparr>Start = 0, End = 5\<rparr>]
   \<and> Regions_Union [\<lparr>Start = 0, End = 5\<rparr>] [\<lparr>Start = 0, End = 0\<rparr>]
       = [\<lparr>Start = 0, End = 0\<rparr>, \<lparr>Start = 0, End = 5\<rparr>]"
  by (simp add: Regions_Union_def Regions_Check_def union_loop.simps Region_Overlap_def
      Region_Equal_def Region_Join_def Region_Clone_def)

section \<open>Map references: Values\<close>

lemma foldl_collect:
  "foldl (\<lambda>result k. if f k \<noteq> VNil then result @ [f k] else result) acc keys
     = acc @ map f (filter (\<lambda>k. f k \<noteq> VNil) keys)"
  by (induction keys arbitrary: acc) auto

text \<open>
  C10. For a Map reference whose variable holds the map \<open>m\<close>, \<^verbatim>\<open>Values\<close> returns, in
  the order of the selected keys, the values of exactly those selected keys that are
  present in \<open>m\<close> with a value other than nil; a key that is absent or holds nil
  adds nothing, so the result is never longer than the key list and may be shorter.
\<close>

theorem MapRef_Values_skips_absent_and_nil:
  assumes "canonical_map data v = Inr m"
  shows "Ref_Values data (RMap v keys)
           = Inr (map (\<lambda>k. the (map_of m k))
                    (filter (\<lambda>k. \<exists>x. map_of m k = Some x \<and> x \<noteq> VNil) keys))
         \<and> (\<forall>vs. Ref_Values data (RMap v keys) = Inr vs \<longrightarrow> length vs \<le> length keys)"
proof -
  have eq: "map (map_index m) (filter (\<lambda>k. map_index m k \<noteq> VNil) keys)
        = map (\<lambda>k. the (map_of m k)) (filter (\<lambda>k. \<exists>x. map_of m k = Some x \<and> x \<noteq> VNil) keys)"
    by (induction keys) (auto simp: map_index_def split: option.splits)
  have "Ref_Values data (RMap v keys)
          = Inr (map (map_index m) (filter (\<lambda>k. map_index m k \<noteq> VNil) keys))"
    using assms by (simp add: MapRef_Values_def foldl_collect)
  then show ?thesis using eq by (auto intro: le_trans [OF length_filter_le])
qed

theorem MapRef_Values_skips_absent_and_nil_witness:
  "canonical_map (VMap [(''a'', VInt 1), (''b'', VNil)]) rootVar = Inr [(''a'', VInt 1), (''b'', VNil)]
   \<and> Ref_Values (VMap [(''a'', VInt 1), (''b'', VNil)]) (RMap rootVar [''a'', ''b'', ''c''])
       = Inr [VInt 1]"
  using MapRef_Values_skips_absent_and_nil
    [of "VMap [(''a'', VInt 1), (''b'', VNil)]" rootVar "[(''a'', VInt 1), (''b'', VNil)]"
        "[''a'', ''b'', ''c'']"]
  by (simp add: canonical_map_def VarRef_CanonicalValue_def rootVar_def toCanonicalType_def)

section \<open>Delete on references that cannot be deleted\<close>

text \<open>
  C9. \<^verbatim>\<open>Delete\<close> on a Var reference returns the error
  \<^verbatim>\<open>Delete not supported for VarRefs\<close> and writes nothing. On a Literal reference
  it panics (\<^verbatim>\<open>Attempt to delete LiteralRef\<close>). On a Latent reference it is a no-op
  that returns no error: through a \<^verbatim>\<open>MatchSet\<close> the call succeeds, returns the
  unchanged document and uses up the one mutation.
\<close>

theorem Delete_on_Var_Literal_Latent:
  "Ref_Delete (RVar v) data = (Some (Failure ''Delete not supported for VarRefs''), data, RVar v)
   \<and> Ref_Delete (RLiteral x) data = (Some (Panic ''Attempt to delete LiteralRef''), data, RLiteral x)
   \<and> Ref_Delete (RLatent a r) data = (None, data, RLatent a r)
   \<and> MatchSet_Delete \<lparr>root = rootVar, ref = RLatent a r, mutated = False\<rparr> data
       = (Inr data, \<lparr>root = rootVar, ref = RLatent a r, mutated = True\<rparr>, data)"
  by (simp add: MatchSet_Delete_def rootVar_def)

theorem Delete_Literal_panics_Latent_succeeds_counterexample:
  "fst (Ref_Delete (RLiteral (VInt 7)) (VMap [])) = Some (Panic ''Attempt to delete LiteralRef'')
   \<and> fst (Ref_Delete (RLatent 0 (RMap rootVar [''a''])) (VMap [])) = None
   \<and> fst (snd (Ref_Delete (RLatent 0 (RMap rootVar [''a''])) (VMap []))) = VMap []"
  by simp

section \<open>MatchSet: one mutation\<close>

lemma MatchSet_Set_success_mutated:
  "MatchSet_Set h value e data = (Inr d, e', data') \<Longrightarrow> mutated e'"
  by (auto simp: MatchSet_Set_def split: if_splits prod.splits option.splits)

lemma MatchSet_Delete_success_mutated:
  "MatchSet_Delete e data = (Inr d, e', data') \<Longrightarrow> mutated e'"
  by (auto simp: MatchSet_Delete_def split: if_splits prod.splits option.splits)

lemma MatchSet_Mutate_success_mutated:
  "MatchSet_Mutate h f e data = (Inr d, e', data') \<Longrightarrow> mutated e'"
  by (auto simp: MatchSet_Mutate_def split: if_splits prod.splits option.splits)

lemma MatchSet_MutateRegions_success_mutated:
  "MatchSet_MutateRegions g e data = (Inr d, e', data') \<Longrightarrow> mutated e'"
  by (auto simp: MatchSet_MutateRegions_def
      split: if_splits prod.splits option.splits Ref.splits sum.splits)

lemma mutated_locks:
  assumes "mutated e"
  shows "MatchSet_Set h value e data = (Inl already_mutated, e, data)"
    and "MatchSet_Delete e data = (Inl already_mutated, e, data)"
    and "MatchSet_Mutate h f e data = (Inl already_mutated, e, data)"
    and "MatchSet_MutateRegions g e data = (Inl already_mutated, e, data)"
    and "MatchSet_Values e data
           = Inl (Panic ''Values are not availible after extract has been mutated'')"
  using assms
  by (simp_all add: MatchSet_Set_def MatchSet_Delete_def MatchSet_Mutate_def
      MatchSet_MutateRegions_def MatchSet_Values_def)

text \<open>
  C1. After a mutating method (\<^verbatim>\<open>Set\<close>, \<^verbatim>\<open>Delete\<close>, \<^verbatim>\<open>Mutate\<close> or
  \<^verbatim>\<open>MutateRegions\<close>) has returned a document, every further \<^verbatim>\<open>Set\<close>,
  \<^verbatim>\<open>Delete\<close>, \<^verbatim>\<open>Mutate\<close> and \<^verbatim>\<open>MutateRegions\<close> on that \<^verbatim>\<open>MatchSet\<close> returns the
  error \<^verbatim>\<open>This extract has allready mutated once\<close> and changes neither the
  \<^verbatim>\<open>MatchSet\<close> nor the document, whatever its arguments. \<^verbatim>\<open>Values\<close>, which has no
  error return, panics.
\<close>

theorem MatchSet_one_mutation:
  assumes "MatchSet_Set h value e data = (Inr d, e', data')
         \<or> MatchSet_Delete e data = (Inr d, e', data')
         \<or> MatchSet_Mutate h f e data = (Inr d, e', data')
         \<or> MatchSet_MutateRegions g e data = (Inr d, e', data')"
  shows "MatchSet_Set h2 value2 e' data2
           = (Inl (Failure ''This extract has allready mutated once''), e', data2)
       \<and> MatchSet_Delete e' data2
           = (Inl (Failure ''This extract has allready mutated once''), e', data2)
       \<and> MatchSet_Mutate h2 f2 e' data2
           = (Inl (Failure ''This extract has allready mutated once''), e', data2)
       \<and> MatchSet_MutateRegions g2 e' data2
           = (Inl (Failure ''This extract has allready mutated once''), e', data2)
       \<and> MatchSet_Values e' data2
           = Inl (Panic ''Values are not availible after extract has been mutated'')"
proof -
  have "mutated e'"
    using assms
    by (auto dest: MatchSet_Set_success_mutated MatchSet_Delete_success_mutated
        MatchSet_Mutate_success_mutated MatchSet_MutateRegions_success_mutated)
  then show ?thesis
    using mutated_locks [of e'] by (simp add: already_mutated_def)
qed

theorem MatchSet_one_mutation_witness:
  "MatchSet_Set [] (VInt 2) \<lparr>root = rootVar, ref = RVar rootVar, mutated = False\<rparr> (VInt 1)
     = (Inr (VInt 2), \<lparr>root = rootVar, ref = RVar rootVar, mutated = True\<rparr>, VInt 2)
   \<and> MatchSet_Delete \<lparr>root = rootVar, ref = RVar rootVar, mutated = True\<rparr> (VInt 2)
     = (Inl (Failure ''This extract has allready mutated once''),
        \<lparr>root = rootVar, ref = RVar rootVar, mutated = True\<rparr>, VInt 2)"
proof -
  have s: "MatchSet_Set [] (VInt 2) \<lparr>root = rootVar, ref = RVar rootVar, mutated = False\<rparr> (VInt 1)
     = (Inr (VInt 2), \<lparr>root = rootVar, ref = RVar rootVar, mutated = True\<rparr>, VInt 2)"
    by (simp add: MatchSet_Set_def rootVar_def assertIsCompatible_def toCanonicalType_def)
  from MatchSet_one_mutation [OF disjI1, OF s] s show ?thesis by simp
qed

theorem MatchSet_Values_after_mutation_counterexample:
  "MatchSet_Set [] (VInt 2) \<lparr>root = rootVar, ref = RVar rootVar, mutated = False\<rparr> (VInt 1)
     = (Inr (VInt 2), \<lparr>root = rootVar, ref = RVar rootVar, mutated = True\<rparr>, VInt 2)
   \<and> MatchSet_Values \<lparr>root = rootVar, ref = RVar rootVar, mutated = True\<rparr> (VInt 2)
     = Inl (Panic ''Values are not availible after extract has been mutated'')"
  by (simp add: MatchSet_Set_def MatchSet_Values_def rootVar_def assertIsCompatible_def
      toCanonicalType_def)

section \<open>MatchSet: MutateRegions on references that are not arrays\<close>

lemma collect_array_refs_non_array:
  "r \<in> set refs \<Longrightarrow> \<forall>v sel. r \<noteq> RArray v sel \<Longrightarrow> \<exists>msg. collect_array_refs refs = Inl (Failure msg)"
  by (induction refs) (auto split: Ref.splits sum.splits)

lemma MatchSet_MutateRegions_union_with_non_array:
  "\<not> mutated e \<Longrightarrow> ref e = RUnion refs \<Longrightarrow> r \<in> set refs \<Longrightarrow> \<forall>v sel. r \<noteq> RArray v sel \<Longrightarrow>
   \<exists>msg. MatchSet_MutateRegions mutator e data = (Inl (Failure msg), e, data)"
  using collect_array_refs_non_array [of r refs]
  by (auto simp: MatchSet_MutateRegions_def)

lemma Match_field_of_map_is_MapRef:
  "processFieldSelection (VMap [(''a'', VInt 1)]) (RVar rootVar) ''a'' False []
     = (Inr (RMap rootVar [''a'']), [])"
  by (simp add: processFieldSelection_def rootVar_def VarRef_IsMap_def VarRef_TypeKind_def
      NewMapRef_def VarRef_CanonicalValue_def toCanonicalType_def NewEmptyRef_def
      latentMapRefs_def individualRefs_def)

text \<open>
  C2. \<^verbatim>\<open>MutateRegions\<close> is documented to return an error when the selection has a
  member that is not an array reference. It does so for a member of a union
  (\<open>MatchSet_MutateRegions_union_with_non_array\<close>). When the selection is a single
  reference that is not an array reference (the Map reference that the query
  \<^verbatim>\<open>a\<close> matches on \<^verbatim>\<open>{"a": 1}\<close>, or a Var, Literal or Latent reference) the type
  switch takes no case: the method calls no mutator, returns the unchanged document
  with a nil error and marks the \<^verbatim>\<open>MatchSet\<close> as mutated.
\<close>

theorem MatchSet_MutateRegions_single_non_array_succeeds:
  "MatchSet_MutateRegions mutator \<lparr>root = rootVar, ref = RMap v keys, mutated = False\<rparr> data
     = (Inr data, \<lparr>root = rootVar, ref = RMap v keys, mutated = True\<rparr>, data)
   \<and> MatchSet_MutateRegions mutator \<lparr>root = rootVar, ref = RVar v, mutated = False\<rparr> data
     = (Inr data, \<lparr>root = rootVar, ref = RVar v, mutated = True\<rparr>, data)
   \<and> MatchSet_MutateRegions mutator \<lparr>root = rootVar, ref = RLiteral x, mutated = False\<rparr> data
     = (Inr data, \<lparr>root = rootVar, ref = RLiteral x, mutated = True\<rparr>, data)
   \<and> MatchSet_MutateRegions mutator \<lparr>root = rootVar, ref = RLatent a r, mutated = False\<rparr> data
     = (Inr data, \<lparr>root = rootVar, ref = RLatent a r, mutated = True\<rparr>, data)"
  by (simp add: MatchSet_MutateRegions_def rootVar_def)

section \<open>Evaluating index and slice nodes\<close>

lemma Ref_Union_empty_single_array:
  "Ref_Union NewEmptyRef [RArray v sel] = Inr (RArray v sel)"
  by (simp add: NewEmptyRef_def)

lemma NewArrayRef_slice:
  "VarRef_Value data v = Inr (VArr xs) \<Longrightarrow> NewArrayRef data v sel = Inr (RArray v sel)"
  by (simp add: NewArrayRef_def VarRef_CanonicalValue_def toCanonicalType_def)

lemma slice_var:
  "VarRef_Value data v = Inr (VArr xs) \<Longrightarrow>
   VarRef_IsSlice data v = Inr True \<and> canonical_slice data v = Inr xs"
  by (simp add: VarRef_IsSlice_def VarRef_TypeKind_def canonical_slice_def
      VarRef_CanonicalValue_def toCanonicalType_def)

text \<open>
  C3. An index node with value \<open>i\<close>, evaluated against a Var that holds an array of
  length \<open>n\<close>: for \<open>n = 0\<close> and \<open>i\<close> equal to 0 or -1 the result is the array
  reference with the one zero-length region \<open>[0,0)\<close>. Otherwise a negative \<open>i\<close>
  stands for \<open>i + n\<close>; an index outside \<open>[0,n)\<close> gives the empty reference, and an
  index \<open>j\<close> inside it gives the array reference with the one region \<open>[j, j+1)\<close>.
\<close>

theorem processIndex_on_array_Var:
  assumes "VarRef_Value data v = Inr (VArr xs)"
  shows "processIndex data (RVar v) node =
           (if length xs = 0 \<and> (index_value node = 0 \<or> index_value node = - 1)
              then Inr (RArray v [\<lparr>Start = 0, End = 0\<rparr>])
            else if index_value node < 0 then
              (if 0 \<le> index_value node + int (length xs)
                 then Inr (RArray v [\<lparr>Start = index_value node + int (length xs),
                                      End = index_value node + int (length xs) + 1\<rparr>])
               else Inr (RUnion []))
            else
              (if index_value node < int (length xs)
                 then Inr (RArray v [\<lparr>Start = index_value node, End = index_value node + 1\<rparr>])
               else Inr (RUnion [])))"
  using slice_var [OF assms] NewArrayRef_slice [OF assms]
  by (simp add: processIndex_def Ref_Union_empty_single_array Let_def)
     (simp add: NewEmptyRef_def)

theorem processIndex_on_array_Var_witness:
  "VarRef_Value (VArr [VInt 0, VInt 10, VInt 20, VInt 30, VInt 40]) rootVar
     = Inr (VArr [VInt 0, VInt 10, VInt 20, VInt 30, VInt 40])
   \<and> processIndex (VArr [VInt 0, VInt 10, VInt 20, VInt 30, VInt 40]) (RVar rootVar)
        \<lparr>index_pos = 5, index_sealed = True, index_value = - 1\<rparr>
       = Inr (RArray rootVar [\<lparr>Start = 4, End = 5\<rparr>])
   \<and> processIndex (VArr []) (RVar rootVar) \<lparr>index_pos = 5, index_sealed = True, index_value = - 1\<rparr>
       = Inr (RArray rootVar [\<lparr>Start = 0, End = 0\<rparr>])
   \<and> processIndex (VArr [VInt 0, VInt 10]) (RVar rootVar)
        \<lparr>index_pos = 5, index_sealed = True, index_value = 2\<rparr>
       = Inr (RUnion [])"
  using processIndex_on_array_Var
          [of "VArr [VInt 0, VInt 10, VInt 20, VInt 30, VInt 40]" rootVar
              "[VInt 0, VInt 10, VInt 20, VInt 30, VInt 40]"
              "\<lparr>index_pos = 5, index_sealed = True, index_value = - 1\<rparr>"]
        processIndex_on_array_Var
          [of "VArr []" rootVar "[]" "\<lparr>index_pos = 5, index_sealed = True, index_value = - 1\<rparr>"]
        processIndex_on_array_Var
          [of "VArr [VInt 0, VInt 10]" rootVar "[VInt 0, VInt 10]"
              "\<lparr>index_pos = 5, index_sealed = True, index_value = 2\<rparr>"]
  by (simp add: rootVar_def)

text \<open>
  The index loop of a slice keeps what it has collected, and collects \<open>i\<close> whenever
  it starts below the end. With the bounds the other way round, \<^verbatim>\<open>[5:1:-2]\<close>, the
  swap gives a loop from 1 up to 5 that steps by -2: if the evaluation returns at
  all, the index -1 is selected (the program itself runs out of memory in that
  loop).
\<close>

lemma slice_indicies_keeps:
  assumes "slice_indicies i e s acc = Some r"
  shows "set acc \<subseteq> set r \<and> (i < e \<longrightarrow> i \<in> set r)"
proof (rule slice_indicies.raw_induct
         [where P = "\<lambda>i e s acc r. set acc \<subseteq> set r \<and> (i < e \<longrightarrow> i \<in> set r)", OF _ assms],
       goal_cases)
  case (1 f i e s acc r)
  show ?case
  proof (cases "i < e")
    case True
    with 1(2) have "f (wrap64 (i + s)) e s (acc @ [i]) = Some r" by simp
    from 1(1) [OF this] True show ?thesis by auto
  next
    case False
    with 1(2) show ?thesis by simp
  qed
qed

lemma slice_indicies_second:
  assumes "slice_indicies i e s [] = Some r" "i < e" "wrap64 (i + s) < e"
  shows "i \<in> set r \<and> wrap64 (i + s) \<in> set r"
proof -
  from assms(1,2) have "slice_indicies (wrap64 (i + s)) e s [i] = Some r"
    by (subst (asm) slice_indicies.simps) simp
  from slice_indicies_keeps [OF this] assms(3) show ?thesis by simp
qed

lemma processSlice_swapped_bounds_negative_step:
  assumes "processSlice (VArr [VInt 0, VInt 10, VInt 20, VInt 30, VInt 40]) (RVar rootVar)
      \<lparr>slice_pos = 0, slice_start = 5, slice_end = 1, slice_step = - 2,
        startSpecified = True, endSpecified = True, stepSpecified = True\<rparr> = Some (Inr ref')"
  shows "\<exists>sel. ref' = RArray rootVar sel \<and> \<lparr>Start = - 1, End = 0\<rparr> \<in> set sel"
proof -
  let ?n = "\<lparr>slice_pos = 0, slice_start = 5, slice_end = 1, slice_step = - 2,
        startSpecified = True, endSpecified = True, stepSpecified = True\<rparr>"
  have sel: "slice_selection ?n 5 =
      (case slice_indicies 1 5 (- 2) [] of None \<Rightarrow> None
       | Some indicies \<Rightarrow> Some (Inr (NewRegionForEachIndex indicies)))"
    by (simp add: slice_selection_def wrap64_def)
  from assms obtain r where r: "slice_indicies 1 5 (- 2) [] = Some r"
    and ref': "ref' = RArray rootVar (NewRegionForEachIndex r)"
    by (auto simp: processSlice_def rootVar_def VarRef_IsSlice_def VarRef_TypeKind_def
      canonical_slice_def VarRef_CanonicalValue_def toCanonicalType_def sel
      NewArrayRef_def NewEmptyRef_def split: option.splits sum.splits)
  from slice_indicies_second [OF r] have "- 1 \<in> set r" by (simp add: wrap64_def)
  then have "\<lparr>Start = - 1, End = 0\<rparr> \<in> set (NewRegionForEachIndex r)"
    by (force simp: NewRegionForEachIndex_def wrap64_def)
  with ref' show ?thesis by blast
qed

text \<open>
  C4. A slice with a negative step is meant to select the index set of the slice
  with the positive step. On the array \<open>[0, 10, 20, 30, 40]\<close> the slice \<^verbatim>\<open>[1:5:2]\<close>
  selects the indices 1 and 3. For \<^verbatim>\<open>[1:5:-2]\<close> the code swaps start and end and
  keeps the negative step: the capacity \<^verbatim>\<open>end-start\<close> of the index list is -4 and
  \<^verbatim>\<open>make\<close> panics.
\<close>

theorem processSlice_negative_step_panics:
  "processSlice (VArr [VInt 0, VInt 10, VInt 20, VInt 30, VInt 40]) (RVar rootVar)
      \<lparr>slice_pos = 0, slice_start = 1, slice_end = 5, slice_step = 2,
        startSpecified = True, endSpecified = True, stepSpecified = True\<rparr>
     = Some (Inr (RArray rootVar [\<lparr>Start = 1, End = 2\<rparr>, \<lparr>Start = 3, End = 4\<rparr>]))
   \<and> processSlice (VArr [VInt 0, VInt 10, VInt 20, VInt 30, VInt 40]) (RVar rootVar)
      \<lparr>slice_pos = 0, slice_start = 1, slice_end = 5, slice_step = - 2,
        startSpecified = True, endSpecified = True, stepSpecified = True\<rparr>
     = Some (Inl (Panic ''runtime error: makeslice: cap out of range''))"
  by (simp add: processSlice_def rootVar_def VarRef_IsSlice_def VarRef_TypeKind_def
      canonical_slice_def VarRef_CanonicalValue_def toCanonicalType_def slice_selection_def
      slice_indicies.simps wrap64_def NewRegionForEachIndex_def NewArrayRef_def NewEmptyRef_def)

section \<open>Evaluating field nodes: the heap\<close>

lemma latent_addresses_simps [simp]:
  "latent_addresses [] = []"
  "latent_addresses (RLatent a root' # refs) = a # latent_addresses refs"
  "latent_addresses (RMap v keys # refs) = latent_addresses refs"
  "latent_addresses (RVar v # refs) = latent_addresses refs"
  "latent_addresses (RArray v sel # refs) = latent_addresses refs"
  "latent_addresses (RUnion rs # refs) = latent_addresses refs"
  "latent_addresses (RLiteral x # refs) = latent_addresses refs"
  "latent_addresses (RNil # refs) = latent_addresses refs"
  by (simp_all add: latent_addresses_def)

lemma MapRef_GetLatentMapRef_heap:
  "MapRef_GetLatentMapRef data v keys h = (Inr res, h') \<Longrightarrow>
   (res = None \<and> h' = h) \<or> (\<exists>r. res = Some (length h, r) \<and> h' = h @ [[]])"
  by (auto simp: MapRef_GetLatentMapRef_def NewLatentMapRef_def Let_def
      split: sum.splits if_splits prod.splits)

lemma latent_refs_loop_heap:
  "latent_refs_loop data refs h = (Inr L, h1) \<Longrightarrow>
   (\<exists>news. h1 = h @ news)
   \<and> (\<forall>a < length h. count_list (map fst L) a = count_list (latent_addresses refs) a)"
proof (induction refs arbitrary: h L h1)
  case Nil
  then show ?case by simp
next
  case (Cons r refs)
  show ?case
  proof (cases r)
    case (RMap v keys)
    from Cons.prems RMap obtain res h' where
      g: "MapRef_GetLatentMapRef data v keys h = (Inr res, h')"
      by (auto split: prod.splits sum.splits)
    from MapRef_GetLatentMapRef_heap [OF g] show ?thesis
    proof
      assume "res = None \<and> h' = h"
      with Cons.prems RMap g have "latent_refs_loop data refs h = (Inr L, h1)" by simp
      from Cons.IH [OF this] RMap show ?thesis by simp
    next
      assume "\<exists>r. res = Some (length h, r) \<and> h' = h @ [[]]"
      then obtain r' where res: "res = Some (length h, r')" and h': "h' = h @ [[]]" by blast
      with Cons.prems RMap g obtain L' where
        rec: "latent_refs_loop data refs (h @ [[]]) = (Inr L', h1)" and L: "L = (length h, r') # L'"
        by (auto split: prod.splits sum.splits)
      from Cons.IH [OF rec] RMap L show ?thesis by auto
    qed
  next
    case (RLatent a root')
    with Cons.prems obtain L' where
      rec: "latent_refs_loop data refs h = (Inr L', h1)" and L: "L = (a, root') # L'"
      by (auto split: prod.splits sum.splits)
    from Cons.IH [OF rec] RLatent L show ?thesis by auto
  qed (use Cons in auto)
qed

lemma add_key_loop_heap:
  "add_key_loop name L results h1 = (Inr r, h2) \<Longrightarrow>
   length h2 = length h1
   \<and> (\<forall>a < length h1. h2 ! a = h1 ! a @ replicate (count_list (map fst L) a) name)"
proof (induction L arbitrary: results h1)
  case Nil
  then show ?case by simp
next
  case (Cons l L)
  obtain a0 root' where l: "l = (a0, root')" by (cases l)
  from Cons.prems l obtain results' where
    rec: "add_key_loop name L results' (LatentMapRef_AddKey a0 name h1) = (Inr r, h2)"
    by (auto simp: Let_def split: sum.splits)
  from Cons.IH [OF rec] l show ?case
    by (auto simp: LatentMapRef_AddKey_def nth_list_update replicate_append_same)
qed

text \<open>
  What a field node does to the \<^verbatim>\<open>LatentMapRef\<close> objects that exist before it
  is evaluated. An existingField node leaves the heap as it is. A field node that
  returns a reference has appended its name, in place, to the key path of every
  \<^verbatim>\<open>LatentMapRef\<close> that the input is or directly contains, once for each
  occurrence; every other object that was on the heap keeps its key path, and the
  new objects come after them.
\<close>

lemma processFieldSelection_heap:
  "snd (processFieldSelection data input name True h) = h
   \<and> (processFieldSelection data input name False h = (Inr r, h') \<longrightarrow>
        length h \<le> length h'
        \<and> (\<forall>a < length h.
              h' ! a = h ! a @ replicate (count_list (latent_addresses (individualRefs input)) a) name))"
proof (intro conjI impI)
  show "snd (processFieldSelection data input name True h) = h"
    by (simp add: processFieldSelection_def split: sum.splits)
next
  assume p: "processFieldSelection data input name False h = (Inr r, h')"
  then obtain results L h1 where
    l: "latent_refs_loop data (individualRefs input) h = (Inr L, h1)" and
    k: "add_key_loop name L results h1 = (Inr r, h')"
    by (auto simp: processFieldSelection_def latentMapRefs_def split: sum.splits prod.splits)
  from latent_refs_loop_heap [OF l] obtain news where
    h1: "h1 = h @ news" and
    c: "\<forall>a < length h. count_list (map fst L) a = count_list (latent_addresses (individualRefs input)) a"
    by blast
  from add_key_loop_heap [OF k] have
    len: "length h' = length h1" and
    upd: "\<forall>a < length h1. h' ! a = h1 ! a @ replicate (count_list (map fst L) a) name"
    by blast+
  show "length h \<le> length h'" using len h1 by simp
  show "\<forall>a < length h.
          h' ! a = h ! a @ replicate (count_list (latent_addresses (individualRefs input)) a) name"
    using upd c h1 by (simp add: nth_append)
qed

text \<open>
  A path of fields that do not exist, evaluated one after the other:
  \<^verbatim>\<open>a.b.c\<close> on the empty document matches one \<^verbatim>\<open>LatentMapRef\<close> with the key
  path \<open>b, c\<close> under the key \<open>a\<close> of the root, and \<^verbatim>\<open>Set\<close> builds the maps on
  the way.
\<close>

lemma Match_latent_path_Set:
  "Expression_Match
      (PathNode 0 [FieldNode \<lparr>field_pos = 0, field_name = ''a''\<rparr>,
                   FieldNode \<lparr>field_pos = 2, field_name = ''b''\<rparr>,
                   FieldNode \<lparr>field_pos = 4, field_name = ''c''\<rparr>])
      (VMap [])
     = Some (Inr \<lparr>root = rootVar, ref = RLatent 0 (RMap rootVar [''a'']), mutated = False\<rparr>,
             [[''b'', ''c'']])
   \<and> MatchSet_Set [[''b'', ''c'']] (VStr ''x'')
        \<lparr>root = rootVar, ref = RLatent 0 (RMap rootVar [''a'']), mutated = False\<rparr> (VMap [])
       = (Inr (VMap [(''a'', VMap [(''b'', VMap [(''c'', VStr ''x'')])])]),
          \<lparr>root = rootVar, ref = RLatent 0 (RMap rootVar [''a'']), mutated = True\<rparr>,
          VMap [(''a'', VMap [(''b'', VMap [(''c'', VStr ''x'')])])])"
  by code_simp

text \<open>
  C8. Evaluating a node is meant to leave the reference it is given as it was and to
  build new references; a \<^verbatim>\<open>LatentMapRef\<close> in the input is not to be modified in
  place. On the empty document \<^verbatim>\<open>a.b\<close> evaluates to a \<^verbatim>\<open>LatentMapRef\<close> with the
  key path \<open>b\<close>. The field node \<open>c\<close> evaluated against that reference returns the
  same object, and the key path of the object is now \<open>b, c\<close>: the input has changed.
  A union evaluates each of its members against the same input, so in
  \<^verbatim>\<open>a.b[c,d]\<close> the member \<open>d\<close> finds the key of \<open>c\<close> already there; both members
  return the one object, with the key path \<open>b, c, d\<close>, and its union with itself is
  the nil reference. \<^verbatim>\<open>Match\<close> returns that \<^verbatim>\<open>MatchSet\<close> without an error, and
  \<^verbatim>\<open>Values\<close> and \<^verbatim>\<open>Set\<close> on it panic.
\<close>

theorem process_field_extends_input_latent_in_place:
  "process (VMap []) (RVar rootVar)
      (PathNode 0 [FieldNode \<lparr>field_pos = 0, field_name = ''a''\<rparr>,
                   FieldNode \<lparr>field_pos = 2, field_name = ''b''\<rparr>]) []
     = Some (Inr (RLatent 0 (RMap rootVar [''a''])), [[''b'']])
   \<and> process (VMap []) (RLatent 0 (RMap rootVar [''a'']))
        (FieldNode \<lparr>field_pos = 4, field_name = ''c''\<rparr>) [[''b'']]
       = Some (Inr (RLatent 0 (RMap rootVar [''a''])), [[''b'', ''c'']])
   \<and> Expression_Match
        (PathNode 0 [FieldNode \<lparr>field_pos = 0, field_name = ''a''\<rparr>,
                     FieldNode \<lparr>field_pos = 2, field_name = ''b''\<rparr>,
                     UnionNode 4 [FieldNode \<lparr>field_pos = 4, field_name = ''c''\<rparr>,
                                  FieldNode \<lparr>field_pos = 6, field_name = ''d''\<rparr>]])
        (VMap [])
       = Some (Inr \<lparr>root = rootVar, ref = RNil, mutated = False\<rparr>, [[''b'', ''c'', ''d'']])
   \<and> MatchSet_Values \<lparr>root = rootVar, ref = RNil, mutated = False\<rparr> (VMap [])
       = Inl nil_dereference
   \<and> MatchSet_Set [[''b'', ''c'', ''d'']] (VStr ''x'')
        \<lparr>root = rootVar, ref = RNil, mutated = False\<rparr> (VMap [])
       = (Inl nil_dereference, \<lparr>root = rootVar, ref = RNil, mutated = False\<rparr>, VMap [])"
  by code_simp

end
